theory Spec2Isabelle
  imports
    Complex_Main
    "HOL-Library.Sublist"
    "HOL-Library.Char_ord"
    "HOL-Library.List_Lexorder"
begin

section \<open>Python strings\<close>

text \<open>
  A Python \<open>str\<close> is modelled as a \<open>string\<close>, each \<open>char\<close> standing for one code point
  below 256.  Case mapping is the ASCII one; the other code points are left alone.
\<close>

definition ascii_upper :: string where
  "ascii_upper = ''ABCDEFGHIJKLMNOPQRSTUVWXYZ''"

definition ascii_lower :: string where
  "ascii_lower = ''abcdefghijklmnopqrstuvwxyz''"

definition lower_char :: "char \<Rightarrow> char" where
  "lower_char c = (case map_of (zip ascii_upper ascii_lower) c of Some d \<Rightarrow> d | None \<Rightarrow> c)"

definition upper_char :: "char \<Rightarrow> char" where
  "upper_char c = (case map_of (zip ascii_lower ascii_upper) c of Some d \<Rightarrow> d | None \<Rightarrow> c)"

definition str_lower :: "string \<Rightarrow> string" where
  "str_lower s = map lower_char s"

definition str_upper :: "string \<Rightarrow> string" where
  "str_upper s = map upper_char s"

text \<open>\<open>str.isspace\<close> on the code points below 256.\<close>

definition whitespace :: string where
  "whitespace = [CHR 0x09, CHR 0x0A, CHR 0x0B, CHR 0x0C, CHR 0x0D, CHR 0x1C, CHR 0x1D,
                 CHR 0x1E, CHR 0x1F, CHR 0x20, CHR 0x85, CHR 0xA0]"

definition is_space :: "char \<Rightarrow> bool" where
  "is_space c = (c \<in> set whitespace)"

definition str_strip :: "string \<Rightarrow> string" where
  "str_strip s = rev (dropWhile is_space (rev (dropWhile is_space s)))"

text \<open>\<open>s.lstrip(chars)\<close> and \<open>s.rstrip(chars)\<close>.\<close>

definition str_lstrip :: "string \<Rightarrow> string \<Rightarrow> string" where
  "str_lstrip chars s = dropWhile (\<lambda>c. c \<in> set chars) s"

definition str_rstrip :: "string \<Rightarrow> string \<Rightarrow> string" where
  "str_rstrip chars s = rev (dropWhile (\<lambda>c. c \<in> set chars) (rev s))"

text \<open>\<open>sub in s\<close>: \<open>sub\<close> occurs in \<open>s\<close> as a contiguous piece.\<close>

fun str_contains :: "string \<Rightarrow> string \<Rightarrow> bool" where
  "str_contains sub [] = (sub = [])"
| "str_contains sub (c # s) = (prefix sub (c # s) \<or> str_contains sub s)"

definition str_endswith :: "string \<Rightarrow> string \<Rightarrow> bool" where
  "str_endswith s suf = suffix suf s"

text \<open>
  \<open>s.replace(old, new)\<close>: the occurrences of \<open>old\<close> are replaced from left to right, and the
  scan goes on after each replaced occurrence.  With an empty \<open>old\<close> Python puts \<open>new\<close> before
  every character and at the end.
\<close>

function str_replace :: "string \<Rightarrow> string \<Rightarrow> string \<Rightarrow> string" where
  "str_replace old new [] = (if old = [] then new else [])"
| "str_replace old new (c # s) =
     (if old = [] then new @ c # str_replace old new s
      else if prefix old (c # s) then new @ str_replace old new (drop (length old) (c # s))
      else c # str_replace old new s)"
  by pat_completeness auto
termination
  by (relation "measure (\<lambda>(old, new, s). length s)") auto

text \<open>\<open>s.split(sep)\<close> for a separator of one character: never an empty list.\<close>

fun str_split :: "char \<Rightarrow> string \<Rightarrow> string list" where
  "str_split sep [] = [[]]"
| "str_split sep (c # s) =
     (if c = sep then [] # str_split sep s
      else (case str_split sep s of [] \<Rightarrow> [[c]] | l # ls \<Rightarrow> (c # l) # ls))"

text \<open>\<open>sep.join(parts)\<close>.\<close>

fun str_join :: "string \<Rightarrow> string list \<Rightarrow> string" where
  "str_join sep [] = []"
| "str_join sep [p] = p"
| "str_join sep (p # q # ps) = p @ sep @ str_join sep (q # ps)"

text \<open>
  \<open>s.splitlines()\<close>: a line ends at \<open>\n\<close>, \<open>\r\<close>, \<open>\r\n\<close>, \<open>\x0b\<close>, \<open>\x0c\<close>, \<open>\x1c\<close>,
  \<open>\x1d\<close>, \<open>\x1e\<close> or \<open>\x85\<close>; the line ends are dropped, and a line end at the very end of
  the text does not open a further, empty line.  (The two line ends above 255, \<open>\u2028\<close> and
  \<open>\u2029\<close>, are outside the code points modelled.)
\<close>

definition linebreaks :: string where
  "linebreaks = [CHR 0x0A, CHR 0x0D, CHR 0x0B, CHR 0x0C, CHR 0x1C, CHR 0x1D, CHR 0x1E, CHR 0x85]"

definition is_linebreak :: "char \<Rightarrow> bool" where
  "is_linebreak c = (c \<in> set linebreaks)"

fun splitlines :: "string \<Rightarrow> string list" where
  "splitlines [] = []"
| "splitlines [c] = (if is_linebreak c then [[]] else [[c]])"
| "splitlines (c # d # s) =
     (if c = CHR 0x0D \<and> d = CHR 0x0A then [] # splitlines s
      else if is_linebreak c then [] # splitlines (d # s)
      else (case splitlines (d # s) of [] \<Rightarrow> [[c]] | l # ls \<Rightarrow> (c # l) # ls))"

section \<open>The VCard decoder\<close>

text \<open>
  \<open>NextcloudClient._parse_vcard\<close>.  The record it builds is a Python dict from field names
  to strings: a map.
\<close>

type_synonym vcard = "string \<rightharpoonup> string"

text \<open>Line 1053: the unfolded lines of the blob.\<close>

definition vcard_lines :: "string \<Rightarrow> string list" where
  "vcard_lines vcard_text =
     splitlines (str_replace [CHR 0x0A, CHR '' ''] []
       (str_replace [CHR 0x0D, CHR 0x0A, CHR '' ''] [] vcard_text))"

text \<open>\<open>key_parts[0].upper()\<close> of a line that holds a colon.\<close>

definition key_name :: "string \<Rightarrow> string" where
  "key_name line =
     (let key = takeWhile (\<lambda>c. c \<noteq> CHR '':'') line;
          key_parts = str_split CHR '';'' key
      in str_upper (hd key_parts))"

text \<open>\<open>val.strip()\<close>, where \<open>val\<close> is what follows the first colon.\<close>

definition line_val :: "string \<Rightarrow> string" where
  "line_val line = str_strip (drop 1 (dropWhile (\<lambda>c. c \<noteq> CHR '':'') line))"

text \<open>The body of the loop over the lines (lines 1055 to 1073).\<close>

definition vcard_step :: "vcard \<Rightarrow> string \<Rightarrow> vcard" where
  "vcard_step data line =
     (if CHR '':'' \<notin> set line then data
      else let key_name = key_name line; val = line_val line in
        if key_name = ''FN'' then data(''fn'' \<mapsto> val)
        else if key_name = ''EMAIL'' then data(''email'' \<mapsto> val)
        else if key_name = ''TEL'' then data(''tel'' \<mapsto> val)
        else if key_name = ''ORG'' then data(''org'' \<mapsto> val)
        else if key_name = ''NOTE'' then data(''note'' \<mapsto> val)
        else if key_name = ''ADR'' then
          (let parts = str_split CHR '';'' val;
               addr = str_join '', '' (filter (\<lambda>p. p \<noteq> []) parts)
           in data(''adr'' \<mapsto> addr))
        else data)"

definition parse_vcard :: "string \<Rightarrow> vcard" where
  "parse_vcard vcard_text = foldl vcard_step Map.empty (vcard_lines vcard_text)"

section \<open>Exceptions, HTTP responses and documents\<close>

text \<open>
  A Python exception is a value: its class and the text that \<open>str(e)\<close> gives.  A computation
  that may raise returns \<open>exc + 'a\<close>, with \<open>Inl\<close> for the exception raised.  The texts of the
  exceptions that library code raises are the ones of CPython; nothing proved below depends
  on them.
\<close>

datatype exc_kind = HTTPError | RequestException | XMLSyntaxError | JSONDecodeError
  | AttributeError | TypeError | KeyError | ValueError

datatype exc = Exc exc_kind string

fun str_exc :: "exc \<Rightarrow> string" where
  "str_exc (Exc k m) = m"

text \<open>An element of an lxml tree: its tag in Clark notation, its text, its children.\<close>

datatype xml = Elem (tag: string) (elem_text: "string option") (children: "xml list")

text \<open>The values that \<open>response.json()\<close> can give.\<close>

datatype json = JNull | JBool bool | JInt int | JStr string | JList "json list"
  | JObj "(string \<times> json) list"

text \<open>
  What the client reads of a \<open>requests\<close> response: the status, \<open>response.text\<close>, the result of
  \<open>etree.fromstring(response.content)\<close>, the result of \<open>response.json()\<close>, and the message of
  the \<open>HTTPError\<close> that \<open>raise_for_status\<close> builds when the status is an error.  A request
  that raises before any response exists (no connection) is an \<open>Inl\<close> outcome.
\<close>

record response =
  status_code :: nat
  body_text :: string
  content_xml :: "exc + xml"
  json_body :: "exc + json"
  status_msg :: string

type_synonym outcome = "exc + response"

definition raise_for_status :: "response \<Rightarrow> exc + unit" where
  "raise_for_status r =
     (if 400 \<le> status_code r \<and> status_code r < 600 then Inl (Exc HTTPError (status_msg r))
      else Inr ())"

text \<open>\<open>elem.find(t)\<close> and \<open>elem.findall(t)\<close> for a tag \<open>t\<close>: among the children only.\<close>

definition find_child :: "string \<Rightarrow> xml \<Rightarrow> xml option" where
  "find_child t e = List.find (\<lambda>c. tag c = t) (children e)"

definition findall :: "string \<Rightarrow> xml \<Rightarrow> xml list" where
  "findall t e = filter (\<lambda>c. tag c = t) (children e)"

text \<open>\<open>x.text\<close> and \<open>x.find(t)\<close> where \<open>x\<close> may be \<open>None\<close>.\<close>

definition text_of :: "xml option \<Rightarrow> exc + string option" where
  "text_of x = (case x of
      None \<Rightarrow> Inl (Exc AttributeError (''NoneType object has no attribute text''))
    | Some e \<Rightarrow> Inr (elem_text e))"

definition find_in :: "xml option \<Rightarrow> string \<Rightarrow> exc + xml option" where
  "find_in x t = (case x of
      None \<Rightarrow> Inl (Exc AttributeError (''NoneType object has no attribute find''))
    | Some e \<Rightarrow> Inr (find_child t e))"

text \<open>\<open>os.path.basename\<close>: what follows the last slash.\<close>

definition basename :: "string \<Rightarrow> string" where
  "basename p = rev (takeWhile (\<lambda>c. c \<noteq> CHR ''/'') (rev p))"

definition py_basename :: "string option \<Rightarrow> exc + string" where
  "py_basename p = (case p of
      None \<Rightarrow> Inl (Exc TypeError ''expected str, bytes or os.PathLike object, not NoneType'')
    | Some s \<Rightarrow> Inr (basename s))"

text \<open>
  \<open>urllib.parse.unquote\<close> is a parameter of the listings that call it; on \<open>None\<close> it raises.
\<close>

definition py_unquote :: "(string \<Rightarrow> string) \<Rightarrow> string option \<Rightarrow> exc + string" where
  "py_unquote unquote h = (case h of
      None \<Rightarrow> Inl (Exc TypeError ''argument of type NoneType is not iterable'')
    | Some s \<Rightarrow> Inr (unquote s))"

text \<open>A loop that appends to a list, skips an element, or stops at the first exception.\<close>

fun collect :: "('a \<Rightarrow> exc + 'b option) \<Rightarrow> 'a list \<Rightarrow> exc + 'b list" where
  "collect f [] = Inr []"
| "collect f (x # xs) =
     (case f x of Inl e \<Rightarrow> Inl e
      | Inr r \<Rightarrow>
         (case collect f xs of Inl e \<Rightarrow> Inl e
          | Inr rs \<Rightarrow> Inr (case r of None \<Rightarrow> rs | Some v \<Rightarrow> v # rs)))"

text \<open>\<open>str(n)\<close> for an integer, and \<open>str(x)\<close> where \<open>x\<close> is a string or \<open>None\<close>.\<close>

function str_nat :: "nat \<Rightarrow> string" where
  "str_nat n =
     (if n < 10 then [''0123456789'' ! n] else str_nat (n div 10) @ [''0123456789'' ! (n mod 10)])"
  by pat_completeness auto
termination
  by (relation "measure id") auto

definition str_int :: "int \<Rightarrow> string" where
  "str_int i = (if i < 0 then CHR ''-'' # str_nat (nat (- i)) else str_nat (nat i))"

definition str_opt :: "string option \<Rightarrow> string" where
  "str_opt x = (case x of None \<Rightarrow> ''None'' | Some s \<Rightarrow> s)"

text \<open>
  \<open>xs[start:stop]\<close>: a negative index counts from the end, and both indices are cut to the
  bounds of the list.
\<close>

definition slice_index :: "nat \<Rightarrow> int \<Rightarrow> nat" where
  "slice_index n i =
     (if i < 0 then (if i + int n < 0 then 0 else nat (i + int n))
      else if int n < i then n else nat i)"

definition py_slice :: "'a list \<Rightarrow> int \<Rightarrow> int \<Rightarrow> 'a list" where
  "py_slice xs start stop =
     (let a = slice_index (length xs) start; b = slice_index (length xs) stop
      in take (b - a) (drop a xs))"

section \<open>Files\<close>

text \<open>
  The dicts \<open>{"name": ..., "href": ...}\<close> of the listings, which a file listing extends with
  \<open>"is_directory"\<close> and \<open>"size"\<close>.  A value read from \<open>.text\<close> may be \<open>None\<close>.
\<close>

record dav_entry =
  name :: "string option"
  href :: "string option"

record file_entry = dav_entry +
  is_directory :: bool
  size_val :: "string option"

text \<open>The body of the loop of \<open>list_files\<close> and \<open>list_files_raw\<close> (lines 1356 to 1377).\<close>

definition file_item :: "(string \<Rightarrow> string) \<Rightarrow> xml \<Rightarrow> exc + file_entry option" where
  "file_item unquote response_elem =
     (case text_of (find_child ''{DAV:}href'' response_elem) of Inl e \<Rightarrow> Inl e
      | Inr href_text \<Rightarrow>
     (case py_unquote unquote href_text of Inl e \<Rightarrow> Inl e
      | Inr href_str \<Rightarrow>
     (case find_in (find_child ''{DAV:}propstat'' response_elem) ''{DAV:}prop'' of Inl e \<Rightarrow> Inl e
      | Inr prop \<Rightarrow>
     (case find_in prop ''{DAV:}resourcetype'' of Inl e \<Rightarrow> Inl e
      | Inr resourcetype \<Rightarrow>
     (case find_in prop ''{DAV:}displayname'' of Inl e \<Rightarrow> Inl e
      | Inr displayname \<Rightarrow>
     (case find_in prop ''{DAV:}getcontentlength'' of Inl e \<Rightarrow> Inl e
      | Inr contentlength \<Rightarrow>
        let is_collection =
              (case resourcetype of None \<Rightarrow> False
               | Some rt \<Rightarrow> find_child ''{DAV:}collection'' rt \<noteq> None);
            display = (case displayname of Some d \<Rightarrow> elem_text d
                       | None \<Rightarrow> Some (basename (str_rstrip ''/'' href_str)));
            size_str = (case contentlength of Some c \<Rightarrow> elem_text c | None \<Rightarrow> Some ''0'')
        in Inr (Some \<lparr>name = display, href = Some href_str, is_directory = is_collection,
                      size_val = size_str\<rparr>)))))))"

text \<open>
  \<open>list_files_raw\<close> (lines 1341 to 1380), given the outcome of its PROPFIND request.  The
  status check is outside the \<open>try\<close>, so it can raise.
\<close>

definition list_files_raw ::
  "(string \<Rightarrow> string) \<Rightarrow> string \<Rightarrow> outcome \<Rightarrow> exc + (file_entry list option \<times> string option)" where
  "list_files_raw unquote path0 propfind =
     (let path = str_lstrip ''/'' path0 in
      case propfind of Inl e \<Rightarrow> Inl e
      | Inr response \<Rightarrow>
        if status_code response = 404
        then Inr (None, Some (''Error: Path '' @ [CHR 0x27] @ path @ [CHR 0x27] @ '' not found.''))
        else (case raise_for_status response of Inl e \<Rightarrow> Inl e
          | Inr _ \<Rightarrow>
            (case (case content_xml response of Inl e \<Rightarrow> Inl e
                   | Inr tree \<Rightarrow> collect (file_item unquote) (findall ''{DAV:}response'' tree)) of
               Inr items \<Rightarrow> Inr (Some items, None)
             | Inl e \<Rightarrow> Inr (None, Some (''Error parsing WebDAV response: '' @ str_exc e)))))"

text \<open>\<open>list_files\<close> (lines 822 to 876): the same listing, as text.\<close>

definition file_line :: "file_entry \<Rightarrow> string" where
  "file_line item =
     (if is_directory item then ''[DIR]'' else ''[FILE]'') @ '' '' @ str_opt (name item)
       @ '' ('' @ str_opt (size_val item) @ '' bytes)'' @ [CHR 0x0A]"

definition list_files :: "(string \<Rightarrow> string) \<Rightarrow> string \<Rightarrow> outcome \<Rightarrow> exc + string" where
  "list_files unquote path0 propfind =
     (let path = str_lstrip ''/'' path0 in
      case propfind of Inl e \<Rightarrow> Inl e
      | Inr response \<Rightarrow>
        if status_code response = 404
        then Inr (''Error: Path '' @ [CHR 0x27] @ path @ [CHR 0x27] @ '' not found.'')
        else (case raise_for_status response of Inl e \<Rightarrow> Inl e
          | Inr _ \<Rightarrow>
            (case (case content_xml response of Inl e \<Rightarrow> Inl e
                   | Inr tree \<Rightarrow> collect (file_item unquote) (findall ''{DAV:}response'' tree)) of
               Inr items \<Rightarrow>
                 Inr (''Listing of '' @ path @ '':'' @ [CHR 0x0A] @ concat (map file_line items))
             | Inl e \<Rightarrow> Inr (''Error parsing WebDAV response: '' @ str_exc e))))"

text \<open>\<open>read_file\<close> (lines 878 to 885) and \<open>delete_file\<close> (lines 894 to 901).\<close>

definition read_file :: "string \<Rightarrow> outcome \<Rightarrow> exc + string" where
  "read_file path0 get =
     (let path = str_lstrip ''/'' path0 in
      case get of Inl e \<Rightarrow> Inl e
      | Inr response \<Rightarrow>
        if status_code response = 404
        then Inr (''Error: File '' @ [CHR 0x27] @ path @ [CHR 0x27] @ '' not found.'')
        else (case raise_for_status response of Inl e \<Rightarrow> Inl e
          | Inr _ \<Rightarrow> Inr (body_text response)))"

definition delete_file :: "string \<Rightarrow> outcome \<Rightarrow> exc + string" where
  "delete_file path0 delete =
     (let path = str_lstrip ''/'' path0 in
      case delete of Inl e \<Rightarrow> Inl e
      | Inr response \<Rightarrow>
        if status_code response = 404
        then Inr (''Error: File '' @ [CHR 0x27] @ path @ [CHR 0x27] @ '' not found.'')
        else (case raise_for_status response of Inl e \<Rightarrow> Inl e
          | Inr _ \<Rightarrow> Inr (''Successfully deleted '' @ [CHR 0x27] @ path @ [CHR 0x27] @ ''.'')))"

section \<open>Notes\<close>

text \<open>
  What Python does with a decoded JSON value: \<open>for x in v\<close> and \<open>v[key]\<close> for a string key.
  Floating-point numbers are left out of \<open>json\<close>.  \<open>str(v)\<close> inside an f-string is a
  parameter, \<open>py_str\<close>.
\<close>

definition json_iter :: "json \<Rightarrow> exc + json list" where
  "json_iter v = (case v of
      JList xs \<Rightarrow> Inr xs
    | JObj kvs \<Rightarrow> Inr (map (\<lambda>kv. JStr (fst kv)) kvs)
    | JStr s \<Rightarrow> Inr (map (\<lambda>c. JStr [c]) s)
    | _ \<Rightarrow> Inl (Exc TypeError ''object is not iterable''))"

definition json_item :: "json \<Rightarrow> string \<Rightarrow> exc + json" where
  "json_item v k = (case v of
      JObj kvs \<Rightarrow> (case map_of kvs k of Some x \<Rightarrow> Inr x | None \<Rightarrow> Inl (Exc KeyError k))
    | JList xs \<Rightarrow> Inl (Exc TypeError ''list indices must be integers or slices, not str'')
    | JStr s \<Rightarrow> Inl (Exc TypeError ''string indices must be integers, not str'')
    | _ \<Rightarrow> Inl (Exc TypeError ''object is not subscriptable''))"

definition note_line :: "(json \<Rightarrow> string) \<Rightarrow> json \<Rightarrow> exc + string option" where
  "note_line py_str note =
     (case json_item note ''id'' of Inl e \<Rightarrow> Inl e
      | Inr i \<Rightarrow>
     (case json_item note ''title'' of Inl e \<Rightarrow> Inl e
      | Inr t \<Rightarrow>
     (case json_item note ''category'' of Inl e \<Rightarrow> Inl e
      | Inr c \<Rightarrow>
        Inr (Some (''- ID: '' @ py_str i @ '', Title: '' @ py_str t @ '', Category: '' @ py_str c
                   @ [CHR 0x0A])))))"

text \<open>\<open>list_notes\<close> (lines 913 to 924): \<open>response.json()\<close> is not inside any \<open>try\<close>.\<close>

definition list_notes :: "(json \<Rightarrow> string) \<Rightarrow> outcome \<Rightarrow> exc + string" where
  "list_notes py_str get =
     (case get of Inl e \<Rightarrow> Inl e
      | Inr response \<Rightarrow>
        if status_code response = 404
        then Inr ''Notes app not found or not enabled on this Nextcloud instance.''
        else (case raise_for_status response of Inl e \<Rightarrow> Inl e
          | Inr _ \<Rightarrow>
          (case json_body response of Inl e \<Rightarrow> Inl e
           | Inr notes \<Rightarrow>
           (case json_iter notes of Inl e \<Rightarrow> Inl e
            | Inr ns \<Rightarrow>
            (case collect (note_line py_str) ns of Inl e \<Rightarrow> Inl e
             | Inr ls \<Rightarrow> Inr (''Notes:'' @ [CHR 0x0A] @ concat ls))))))"

text \<open>\<open>list_notes_raw\<close> (lines 1382 to 1389).\<close>

definition list_notes_raw :: "outcome \<Rightarrow> exc + (json option \<times> string option)" where
  "list_notes_raw get =
     (case get of Inl e \<Rightarrow> Inl e
      | Inr response \<Rightarrow>
        if status_code response = 404 then Inr (None, Some ''Notes app not found.'')
        else (case raise_for_status response of Inl e \<Rightarrow> Inl e
          | Inr _ \<Rightarrow>
          (case json_body response of Inl e \<Rightarrow> Inl e
           | Inr notes \<Rightarrow> Inr (Some notes, None))))"

text \<open>\<open>get_note\<close> (lines 926 to 931) and \<open>delete_note\<close> (lines 941 to 945).\<close>

definition get_note :: "(json \<Rightarrow> string) \<Rightarrow> int \<Rightarrow> outcome \<Rightarrow> exc + string" where
  "get_note py_str note_id get =
     (case get of Inl e \<Rightarrow> Inl e
      | Inr response \<Rightarrow>
        (case raise_for_status response of Inl e \<Rightarrow> Inl e
         | Inr _ \<Rightarrow>
         (case json_body response of Inl e \<Rightarrow> Inl e
          | Inr note \<Rightarrow>
          (case json_item note ''title'' of Inl e \<Rightarrow> Inl e
           | Inr t \<Rightarrow>
          (case json_item note ''category'' of Inl e \<Rightarrow> Inl e
           | Inr c \<Rightarrow>
          (case json_item note ''content'' of Inl e \<Rightarrow> Inl e
           | Inr b \<Rightarrow>
             Inr (''Title: '' @ py_str t @ [CHR 0x0A] @ ''Category: '' @ py_str c @ [CHR 0x0A]
                  @ ''Content:'' @ [CHR 0x0A] @ py_str b)))))))"

definition delete_note :: "int \<Rightarrow> outcome \<Rightarrow> exc + string" where
  "delete_note note_id delete =
     (case delete of Inl e \<Rightarrow> Inl e
      | Inr response \<Rightarrow>
        (case raise_for_status response of Inl e \<Rightarrow> Inl e
         | Inr _ \<Rightarrow> Inr (''Note '' @ str_int note_id @ '' deleted.'')))"

section \<open>Calendars and address books\<close>

text \<open>
  The body of the loop of \<open>list_calendars\<close>, \<open>list_calendars_raw\<close>, \<open>list_addressbooks\<close> and
  \<open>list_addressbooks_raw\<close>, which differ in the marker looked for under \<open>resourcetype\<close>.
\<close>

definition py_rstrip_slash :: "string option \<Rightarrow> exc + string" where
  "py_rstrip_slash h = (case h of
      None \<Rightarrow> Inl (Exc AttributeError ''NoneType object has no attribute rstrip'')
    | Some s \<Rightarrow> Inr (str_rstrip ''/'' s))"

definition collection_item :: "string \<Rightarrow> xml \<Rightarrow> exc + dav_entry option" where
  "collection_item marker response_elem =
     (case text_of (find_child ''{DAV:}href'' response_elem) of Inl e \<Rightarrow> Inl e
      | Inr href_text \<Rightarrow>
     (case find_in (find_child ''{DAV:}propstat'' response_elem) ''{DAV:}prop'' of Inl e \<Rightarrow> Inl e
      | Inr prop \<Rightarrow>
     (case find_in prop ''{DAV:}displayname'' of Inl e \<Rightarrow> Inl e
      | Inr displayname \<Rightarrow>
     (case find_in prop ''{DAV:}resourcetype'' of Inl e \<Rightarrow> Inl e
      | Inr resourcetype \<Rightarrow>
        if (case resourcetype of None \<Rightarrow> False | Some rt \<Rightarrow> find_child marker rt \<noteq> None)
        then (case (case displayname of Some d \<Rightarrow> Inr (elem_text d)
                    | None \<Rightarrow> (case py_rstrip_slash href_text of Inl e \<Rightarrow> Inl e
                               | Inr s \<Rightarrow> Inr (Some (basename s)))) of
                Inl e \<Rightarrow> Inl e
              | Inr display \<Rightarrow> Inr (Some \<lparr>name = display, href = href_text\<rparr>))
        else Inr None))))"

definition caldav_marker :: string where
  "caldav_marker = ''{urn:ietf:params:xml:ns:caldav}calendar''"

definition carddav_marker :: string where
  "carddav_marker = ''{urn:ietf:params:xml:ns:carddav}addressbook''"

text \<open>
  The raw listings (lines 1398 to 1418 and 1463 to 1483), and the textual ones (lines 948 to
  974 and 990 to 1014).  \<open>raise_for_status\<close> is outside the \<open>try\<close>.
\<close>

definition list_collections_raw ::
  "string \<Rightarrow> outcome \<Rightarrow> exc + (dav_entry list option \<times> string option)" where
  "list_collections_raw marker propfind =
     (case propfind of Inl e \<Rightarrow> Inl e
      | Inr response \<Rightarrow>
        (case raise_for_status response of Inl e \<Rightarrow> Inl e
         | Inr _ \<Rightarrow>
           (case (case content_xml response of Inl e \<Rightarrow> Inl e
                  | Inr tree \<Rightarrow> collect (collection_item marker) (findall ''{DAV:}response'' tree)) of
              Inr items \<Rightarrow> Inr (Some items, None)
            | Inl e \<Rightarrow> Inr (None, Some (''Error: '' @ str_exc e)))))"

definition list_calendars_raw :: "outcome \<Rightarrow> exc + (dav_entry list option \<times> string option)" where
  "list_calendars_raw propfind = list_collections_raw caldav_marker propfind"

definition list_addressbooks_raw ::
  "outcome \<Rightarrow> exc + (dav_entry list option \<times> string option)" where
  "list_addressbooks_raw propfind = list_collections_raw carddav_marker propfind"

definition collection_line :: "dav_entry \<Rightarrow> string" where
  "collection_line c =
     ''- '' @ str_opt (name c) @ '' (Path: '' @ str_opt (href c) @ '')'' @ [CHR 0x0A]"

definition list_collections :: "string \<Rightarrow> string \<Rightarrow> string \<Rightarrow> outcome \<Rightarrow> exc + string" where
  "list_collections marker heading failure propfind =
     (case propfind of Inl e \<Rightarrow> Inl e
      | Inr response \<Rightarrow>
        (case raise_for_status response of Inl e \<Rightarrow> Inl e
         | Inr _ \<Rightarrow>
           (case (case content_xml response of Inl e \<Rightarrow> Inl e
                  | Inr tree \<Rightarrow> collect (collection_item marker) (findall ''{DAV:}response'' tree)) of
              Inr items \<Rightarrow> Inr (heading @ [CHR 0x0A] @ concat (map collection_line items))
            | Inl e \<Rightarrow> Inr (failure @ str_exc e))))"

definition list_calendars :: "outcome \<Rightarrow> exc + string" where
  "list_calendars propfind =
     list_collections caldav_marker ''Calendars:'' ''Error listing calendars: '' propfind"

definition list_addressbooks :: "outcome \<Rightarrow> exc + string" where
  "list_addressbooks propfind =
     list_collections carddav_marker ''Address Books:'' ''Error listing address books: '' propfind"

section \<open>Calendar events\<close>

text \<open>The scan of an iCalendar blob for its summary and its start (lines 1453 to 1457).\<close>

definition event_scan :: "string \<times> string \<Rightarrow> string \<Rightarrow> string \<times> string" where
  "event_scan acc line =
     (let summary = (if prefix ''SUMMARY:'' line then drop 8 line else fst acc);
          dtstart = (if prefix ''DTSTART:'' line then drop 8 line else snd acc)
      in (summary, dtstart))"

definition event_fields :: "string option \<Rightarrow> exc + string \<times> string" where
  "event_fields data = (case data of
      None \<Rightarrow> Inl (Exc AttributeError ''NoneType object has no attribute splitlines'')
    | Some d \<Rightarrow> Inr (foldl event_scan (''No Title'', []) (splitlines d)))"

text \<open>The first loop of \<open>list_calendar_events\<close> (lines 1304 to 1311): href and blob.\<close>

definition event_data :: "xml \<Rightarrow> exc + (string option \<times> string option) option" where
  "event_data response_elem =
     (case text_of (find_child ''{DAV:}href'' response_elem) of Inl e \<Rightarrow> Inl e
      | Inr href_text \<Rightarrow>
     (case find_in (find_child ''{DAV:}propstat'' response_elem) ''{DAV:}prop'' of Inl e \<Rightarrow> Inl e
      | Inr prop \<Rightarrow>
     (case find_in prop ''{urn:ietf:params:xml:ns:caldav}calendar-data'' of Inl e \<Rightarrow> Inl e
      | Inr caldata \<Rightarrow>
        (case caldata of None \<Rightarrow> Inr None
         | Some c \<Rightarrow> Inr (Some (href_text, elem_text c))))))"

text \<open>An event of \<open>list_calendar_events_raw\<close>: summary, start, href.\<close>

record event =
  summary :: string
  dtstart :: string
  event_href :: "string option"

definition event_item :: "xml \<Rightarrow> exc + event option" where
  "event_item response_elem =
     (case event_data response_elem of Inl e \<Rightarrow> Inl e
      | Inr None \<Rightarrow> Inr None
      | Inr (Some (href_text, data)) \<Rightarrow>
        (case event_fields data of Inl e \<Rightarrow> Inl e
         | Inr (s, d) \<Rightarrow> Inr (Some \<lparr>summary = s, dtstart = d, event_href = href_text\<rparr>)))"

text \<open>\<open>list_calendar_events_raw\<close> (lines 1420 to 1461).\<close>

definition list_calendar_events_raw :: "outcome \<Rightarrow> exc + (event list option \<times> string option)" where
  "list_calendar_events_raw report =
     (case report of Inl e \<Rightarrow> Inl e
      | Inr response \<Rightarrow>
        (case raise_for_status response of Inl e \<Rightarrow> Inl e
         | Inr _ \<Rightarrow>
           (case (case content_xml response of Inl e \<Rightarrow> Inl e
                  | Inr tree \<Rightarrow> collect event_item (findall ''{DAV:}response'' tree)) of
              Inr events \<Rightarrow> Inr (Some events, None)
            | Inl e \<Rightarrow> Inr (None, Some (''Error: '' @ str_exc e)))))"

text \<open>
  \<open>list_calendar_events\<close> (lines 1273 to 1325): all the blobs are gathered first, then each is
  scanned for its line of output.
\<close>

definition event_line :: "string option \<times> string option \<Rightarrow> exc + string option" where
  "event_line ef =
     (case event_fields (snd ef) of Inl e \<Rightarrow> Inl e
      | Inr (s, d) \<Rightarrow> Inr (Some (''- '' @ s @ '' ('' @ d @ '')'' @ [CHR 0x0A])))"

definition list_calendar_events :: "string \<Rightarrow> string \<Rightarrow> string \<Rightarrow> outcome \<Rightarrow> exc + string" where
  "list_calendar_events calendar_name start stop report =
     (case report of Inl e \<Rightarrow> Inl e
      | Inr response \<Rightarrow>
        (case raise_for_status response of Inl e \<Rightarrow> Inl e
         | Inr _ \<Rightarrow>
           (case (case content_xml response of Inl e \<Rightarrow> Inl e
                  | Inr tree \<Rightarrow>
                    (case collect event_data (findall ''{DAV:}response'' tree) of Inl e \<Rightarrow> Inl e
                     | Inr events \<Rightarrow> collect event_line events)) of
              Inr ls \<Rightarrow>
                Inr (''Events in '' @ calendar_name @ '' ('' @ start @ '' to '' @ stop @ ''):''
                     @ [CHR 0x0A] @ concat ls)
            | Inl e \<Rightarrow> Inr (''Error listing events: '' @ str_exc e))))"

section \<open>Contacts\<close>

text \<open>\<open>d.get(k, default)\<close>, and the truth value of a string that may be \<open>None\<close>.\<close>

definition dict_get :: "('k \<rightharpoonup> 'v) \<Rightarrow> 'k \<Rightarrow> 'v \<Rightarrow> 'v" where
  "dict_get d k dflt = (case d k of Some v \<Rightarrow> v | None \<Rightarrow> dflt)"

definition truthy :: "string option \<Rightarrow> bool" where
  "truthy x = (case x of None \<Rightarrow> False | Some s \<Rightarrow> s \<noteq> [])"

text \<open>The search filter of the REPORT path (lines 1528 to 1532), for a term that is given.\<close>

definition term_matches :: "string \<Rightarrow> vcard \<Rightarrow> bool" where
  "term_matches search_term vcard =
     (let t = str_lower search_term in
        str_contains t (str_lower (dict_get vcard ''fn'' []))
      \<or> str_contains t (str_lower (dict_get vcard ''email'' []))
      \<or> str_contains t (str_lower (dict_get vcard ''tel'' [])))"

text \<open>Lines 1527 and 1533: a contact is passed over when a term is given and does not match.\<close>

definition passed_over :: "string option \<Rightarrow> vcard \<Rightarrow> bool" where
  "passed_over search_term vcard =
     (case search_term of None \<Rightarrow> False
      | Some t \<Rightarrow> t \<noteq> [] \<and> \<not> term_matches t vcard)"

text \<open>The body of the loop of the REPORT path (lines 1517 to 1535).\<close>

definition report_item :: "string option \<Rightarrow> xml \<Rightarrow> exc + vcard option" where
  "report_item search_term response_elem =
     (case text_of (find_child ''{DAV:}href'' response_elem) of Inl e \<Rightarrow> Inl e
      | Inr href_text \<Rightarrow>
     (case find_in (find_child ''{DAV:}propstat'' response_elem) ''{DAV:}prop'' of Inl e \<Rightarrow> Inl e
      | Inr prop \<Rightarrow>
     (case find_in prop ''{urn:ietf:params:xml:ns:carddav}address-data'' of Inl e \<Rightarrow> Inl e
      | Inr adata \<Rightarrow>
        (case adata of None \<Rightarrow> Inr None
         | Some a \<Rightarrow>
           (case elem_text a of None \<Rightarrow> Inr None
            | Some blob \<Rightarrow>
              if blob = [] then Inr None
              else (case py_basename href_text of Inl e \<Rightarrow> Inl e
                | Inr b \<Rightarrow>
                  let vcard = (parse_vcard blob)(''href'' \<mapsto> b) in
                  if passed_over search_term vcard then Inr None else Inr (Some vcard)))))))"

text \<open>The dict \<open>{'contacts': ..., 'total': ...}\<close> that the raw listing returns.\<close>

record contacts_page =
  contacts :: "vcard list"
  total :: int

text \<open>Sorting and pagination (lines 1538 to 1546), for a sort key.\<close>

definition paginate :: "(vcard \<Rightarrow> string) \<Rightarrow> int \<Rightarrow> int \<Rightarrow> vcard list \<Rightarrow> contacts_page" where
  "paginate key page limit cs =
     (let sorted_contacts = sort_key key cs;
          start = (page - 1) * limit;
          stop = start + limit
      in \<lparr>contacts = py_slice sorted_contacts start stop,
          total = int (length sorted_contacts)\<rparr>)"

definition fn_key :: "vcard \<Rightarrow> string" where
  "fn_key x = str_lower (dict_get x ''fn'' [])"

text \<open>The \<open>try\<close> block of \<open>list_contacts_raw\<close> (lines 1510 to 1546), given how REPORT ends.\<close>

definition report_contacts :: "string option \<Rightarrow> outcome \<Rightarrow> exc + vcard list" where
  "report_contacts search_term report =
     (case report of Inl e \<Rightarrow> Inl e
      | Inr response \<Rightarrow>
        (case raise_for_status response of Inl e \<Rightarrow> Inl e
         | Inr _ \<Rightarrow>
           (case content_xml response of Inl e \<Rightarrow> Inl e
            | Inr tree \<Rightarrow> collect (report_item search_term) (findall ''{DAV:}response'' tree))))"

definition try_report :: "int \<Rightarrow> int \<Rightarrow> string option \<Rightarrow> outcome \<Rightarrow> exc + contacts_page" where
  "try_report page limit search_term report =
     (case report_contacts search_term report of Inl e \<Rightarrow> Inl e
      | Inr cs \<Rightarrow> Inr (paginate fn_key page limit cs))"

text \<open>\<open>s.title()\<close>: each run of letters starts with a capital and goes on in small letters.\<close>

definition is_cased :: "char \<Rightarrow> bool" where
  "is_cased c = (c \<in> set ascii_upper \<or> c \<in> set ascii_lower)"

fun title_from :: "bool \<Rightarrow> string \<Rightarrow> string" where
  "title_from prev [] = []"
| "title_from prev (c # s) =
     (if is_cased c then (if prev then lower_char c else upper_char c) # title_from True s
      else c # title_from False s)"

definition str_title :: "string \<Rightarrow> string" where
  "str_title s = title_from False s"

text \<open>
  The fallback on PROPFIND (lines 1553 to 1571): the loop body, the filter, the key.  Every
  dict that the loop builds has the key \<open>'fn'\<close>, which \<open>c['fn']\<close> then reads.
\<close>

definition fallback_item :: "xml \<Rightarrow> exc + vcard option" where
  "fallback_item response_elem =
     (case text_of (find_child ''{DAV:}href'' response_elem) of Inl e \<Rightarrow> Inl e
      | Inr href_text \<Rightarrow>
        (case href_text of
           None \<Rightarrow> Inl (Exc AttributeError ''NoneType object has no attribute endswith'')
         | Some h \<Rightarrow>
           if str_endswith h ''.vcf'' then
             (let display = str_title (str_replace ''-'' '' '' (str_replace ''.vcf'' [] (basename h)))
              in Inr (Some [''fn'' \<mapsto> display, ''href'' \<mapsto> basename h]))
           else Inr None))"

definition fallback_key :: "vcard \<Rightarrow> string" where
  "fallback_key x = the (x ''fn'')"

definition fallback_filter :: "string option \<Rightarrow> vcard list \<Rightarrow> vcard list" where
  "fallback_filter search_term cs =
     (case search_term of None \<Rightarrow> cs
      | Some t \<Rightarrow>
        if t = [] then cs
        else filter (\<lambda>c. str_contains (str_lower t) (str_lower (fallback_key c))) cs)"

definition fallback_contacts :: "string option \<Rightarrow> outcome \<Rightarrow> exc + vcard list" where
  "fallback_contacts search_term propfind =
     (case propfind of Inl e \<Rightarrow> Inl e
      | Inr response \<Rightarrow>
        (case raise_for_status response of Inl e \<Rightarrow> Inl e
         | Inr _ \<Rightarrow>
           (case content_xml response of Inl e \<Rightarrow> Inl e
            | Inr tree \<Rightarrow>
              (case collect fallback_item (findall ''{DAV:}response'' tree) of Inl e \<Rightarrow> Inl e
               | Inr cs \<Rightarrow> Inr (fallback_filter search_term cs)))))"

definition try_fallback :: "int \<Rightarrow> int \<Rightarrow> string option \<Rightarrow> outcome \<Rightarrow> exc + contacts_page" where
  "try_fallback page limit search_term propfind =
     (case fallback_contacts search_term propfind of Inl e \<Rightarrow> Inl e
      | Inr cs \<Rightarrow> Inr (paginate fallback_key page limit cs))"

text \<open>
  \<open>list_contacts_raw\<close> (lines 1485 to 1573), given how its REPORT request ends and how the
  PROPFIND request of the fallback ends (read only when the first \<open>try\<close> block raised).
\<close>

definition list_contacts_raw ::
  "int \<Rightarrow> int \<Rightarrow> string option \<Rightarrow> outcome \<Rightarrow> outcome \<Rightarrow> contacts_page option \<times> string option" where
  "list_contacts_raw page limit search_term report propfind =
     (case try_report page limit search_term report of
        Inr result \<Rightarrow> (Some result, None)
      | Inl e \<Rightarrow>
        (case try_fallback page limit search_term propfind of
           Inr result \<Rightarrow> (Some result, None)
         | Inl e2 \<Rightarrow>
           (None, Some (''Error listing contacts: '' @ str_exc e @ '' / '' @ str_exc e2))))"


text \<open>
  \<open>list_contacts\<close> (lines 1016 to 1035).  Its page count is line 1022; the page count of
  the widget \<open>nc_list_contacts_widget\<close> is line 1911.
\<close>

definition total_pages :: "int \<Rightarrow> int \<Rightarrow> int" where
  "total_pages n limit = (if limit \<noteq> 0 then (n + limit - 1) div limit else 1)"

definition widget_total_pages :: "int \<Rightarrow> int" where
  "widget_total_pages n = (if n \<noteq> 0 then (n + 29) div 30 else 1)"

text \<open>One piece of the details of a contact: there when the value is a non-empty string.\<close>

definition detail :: "string \<Rightarrow> string option \<Rightarrow> string \<Rightarrow> string list" where
  "detail before v after =
     (case v of None \<Rightarrow> [] | Some x \<Rightarrow> if x = [] then [] else [before @ x @ after])"

definition contact_line :: "string option \<Rightarrow> vcard \<Rightarrow> exc + string option" where
  "contact_line search_term contact =
     (case (if truthy search_term
            then (case contact ''href'' of None \<Rightarrow> Inl (Exc KeyError ''href'')
                  | Some h \<Rightarrow> Inr [''(Ref: '' @ h @ '')''])
            else Inr []) of
        Inl e \<Rightarrow> Inl e
      | Inr ref \<Rightarrow>
        let details = detail ''<'' (contact ''email'') ''>''
                      @ detail ''[Tel: '' (contact ''tel'') '']'' @ ref;
            line = ''- '' @ dict_get contact ''fn'' ''Unknown'' @ '' ''
        in Inr (Some ((if details \<noteq> [] then line @ str_join '' '' details else line)
                      @ [CHR 0x0A])))"

definition contacts_text ::
  "string \<Rightarrow> int \<Rightarrow> int \<Rightarrow> string option \<Rightarrow> contacts_page option \<Rightarrow> exc + string" where
  "contacts_text addressbook_name page limit search_term result =
     (case result of
        None \<Rightarrow> Inl (Exc TypeError ''NoneType object is not subscriptable'')
      | Some r \<Rightarrow>
        (case collect (contact_line search_term) (contacts r) of Inl e \<Rightarrow> Inl e
         | Inr ls \<Rightarrow>
           Inr (''Contacts in '' @ addressbook_name @ '' (Page '' @ str_int page @ ''/''
                @ str_int (total_pages (total r) limit) @ '', '' @ str_int (total r)
                @ '' total):'' @ [CHR 0x0A] @ concat ls)))"

definition list_contacts ::
  "string \<Rightarrow> int \<Rightarrow> int \<Rightarrow> string option \<Rightarrow> outcome \<Rightarrow> outcome \<Rightarrow> exc + string" where
  "list_contacts addressbook_name page limit search_term report propfind =
     (case list_contacts_raw page limit search_term report propfind of
        (result, error) \<Rightarrow>
          (case error of
             None \<Rightarrow> contacts_text addressbook_name page limit search_term result
           | Some err \<Rightarrow>
             if err \<noteq> [] then Inr err
             else contacts_text addressbook_name page limit search_term result))"

section \<open>Deck: partial updates\<close>

text \<open>
  The JSON body that each update builds (lines 1170 to 1172, 1199 to 1204, 1235 to 1237): a dict
  from field names to values.  A parameter left out of the call is \<open>None\<close>.  A field is set
  either under \<open>if x:\<close> or under \<open>if x is not None:\<close>.
\<close>

type_synonym body = "string \<rightharpoonup> json"

definition set_if_truthy :: "string \<Rightarrow> string option \<Rightarrow> body \<Rightarrow> body" where
  "set_if_truthy k x data =
     (case x of None \<Rightarrow> data | Some v \<Rightarrow> if v = [] then data else data(k \<mapsto> JStr v))"

definition set_if_not_None :: "string \<Rightarrow> json option \<Rightarrow> body \<Rightarrow> body" where
  "set_if_not_None k x data = (case x of None \<Rightarrow> data | Some v \<Rightarrow> data(k \<mapsto> v))"

definition update_deck_stack_data :: "string option \<Rightarrow> int option \<Rightarrow> body" where
  "update_deck_stack_data title order =
     set_if_not_None ''order'' (map_option JInt order)
       (set_if_truthy ''title'' title Map.empty)"

definition update_deck_card_data ::
  "string option \<Rightarrow> string option \<Rightarrow> int option \<Rightarrow> string option \<Rightarrow> bool option \<Rightarrow> body" where
  "update_deck_card_data title description order duedate archived =
     set_if_not_None ''archived'' (map_option JBool archived)
       (set_if_not_None ''duedate'' (map_option JStr duedate)
         (set_if_not_None ''order'' (map_option JInt order)
           (set_if_not_None ''description'' (map_option JStr description)
             (set_if_truthy ''title'' title Map.empty))))"

definition update_deck_label_data :: "string option \<Rightarrow> string option \<Rightarrow> body" where
  "update_deck_label_data title color =
     set_if_truthy ''color'' color (set_if_truthy ''title'' title Map.empty)"

text \<open>
  The updates themselves (lines 1168 to 1175, 1197 to 1208, 1233 to 1240): \<open>put\<close> is what the
  session's PUT on the URL of the object gives for a body.
\<close>

definition update_deck_stack ::
  "(body \<Rightarrow> outcome) \<Rightarrow> int \<Rightarrow> string option \<Rightarrow> int option \<Rightarrow> exc + string" where
  "update_deck_stack put stack_id title order =
     (case put (update_deck_stack_data title order) of Inl e \<Rightarrow> Inl e
      | Inr response \<Rightarrow>
        (case raise_for_status response of Inl e \<Rightarrow> Inl e
         | Inr _ \<Rightarrow> Inr (''Stack '' @ str_int stack_id @ '' updated.'')))"

definition update_deck_card ::
  "(body \<Rightarrow> outcome) \<Rightarrow> int \<Rightarrow> string option \<Rightarrow> string option \<Rightarrow> int option
     \<Rightarrow> string option \<Rightarrow> bool option \<Rightarrow> exc + string" where
  "update_deck_card put card_id title description order duedate archived =
     (case put (update_deck_card_data title description order duedate archived) of Inl e \<Rightarrow> Inl e
      | Inr response \<Rightarrow>
        (case raise_for_status response of Inl e \<Rightarrow> Inl e
         | Inr _ \<Rightarrow> Inr (''Card '' @ str_int card_id @ '' updated.'')))"

definition update_deck_label ::
  "(body \<Rightarrow> outcome) \<Rightarrow> int \<Rightarrow> string option \<Rightarrow> string option \<Rightarrow> exc + string" where
  "update_deck_label put label_id title color =
     (case put (update_deck_label_data title color) of Inl e \<Rightarrow> Inl e
      | Inr response \<Rightarrow>
        (case raise_for_status response of Inl e \<Rightarrow> Inl e
         | Inr _ \<Rightarrow> Inr (''Label '' @ str_int label_id @ '' updated.'')))"

section \<open>What the listings are measured against\<close>

text \<open>
  The properties of a \<open>response\<close> element that a file listing reads: the \<open>prop\<close> of its
  first \<open>propstat\<close>, whether the \<open>resourcetype\<close> there has a \<open>collection\<close> child, and the
  text of \<open>getcontentlength\<close> there, \<open>"0"\<close> when there is no such element.
\<close>

definition prop_of :: "xml \<Rightarrow> xml option" where
  "prop_of response_elem =
     (case find_child ''{DAV:}propstat'' response_elem of None \<Rightarrow> None
      | Some propstat \<Rightarrow> find_child ''{DAV:}prop'' propstat)"

definition has_collection :: "xml \<Rightarrow> bool" where
  "has_collection response_elem =
     (case prop_of response_elem of None \<Rightarrow> False
      | Some prop \<Rightarrow>
        (case find_child ''{DAV:}resourcetype'' prop of None \<Rightarrow> False
         | Some rt \<Rightarrow> find_child ''{DAV:}collection'' rt \<noteq> None))"

definition contentlength_text :: "xml \<Rightarrow> string option" where
  "contentlength_text response_elem =
     (case prop_of response_elem of None \<Rightarrow> Some ''0''
      | Some prop \<Rightarrow>
        (case find_child ''{DAV:}getcontentlength'' prop of None \<Rightarrow> Some ''0''
         | Some c \<Rightarrow> elem_text c))"

text \<open>
  \<open>int(x)\<close> for a string or \<open>None\<close>, which \<open>FileListWidget.set_files\<close> applies to the size of
  an entry (line 148): white space around is dropped, a sign may come first, and the digits
  may be set apart by single underscores.
\<close>

definition digit_of :: "char \<Rightarrow> nat option" where
  "digit_of c = (if c \<in> set ''0123456789'' then Some (of_char c - 48) else None)"

fun digits_val :: "bool \<Rightarrow> nat \<Rightarrow> string \<Rightarrow> nat option" where
  "digits_val prev acc [] = (if prev then Some acc else None)"
| "digits_val prev acc (c # s) =
     (if c = CHR ''_'' then (if prev then digits_val False acc s else None)
      else (case digit_of c of None \<Rightarrow> None
            | Some d \<Rightarrow> digits_val True (10 * acc + d) s))"

definition py_int :: "string option \<Rightarrow> exc + int" where
  "py_int x = (case x of
      None \<Rightarrow> Inl (Exc TypeError ''int() argument must be a string or a number'')
    | Some s \<Rightarrow>
      (let t = str_strip s;
           v = (case t of [] \<Rightarrow> None
                | c # r \<Rightarrow>
                  if c = CHR ''-'' then map_option (\<lambda>n. - int n) (digits_val False 0 r)
                  else if c = CHR ''+'' then map_option int (digits_val False 0 r)
                  else map_option int (digits_val False 0 t))
       in case v of None \<Rightarrow> Inl (Exc ValueError ''invalid literal for int() with base 10'')
          | Some i \<Rightarrow> Inr i))"

text \<open>
  The whole sorted, filtered list of contacts that \<open>list_contacts_raw\<close> cuts its page from:
  that of the REPORT path, or that of the fallback when the REPORT path raised.
\<close>

definition sorted_contacts :: "string option \<Rightarrow> outcome \<Rightarrow> outcome \<Rightarrow> vcard list option" where
  "sorted_contacts search_term report propfind =
     (case report_contacts search_term report of
        Inr cs \<Rightarrow> Some (sort_key fn_key cs)
      | Inl e \<Rightarrow>
        (case fallback_contacts search_term propfind of
           Inr cs \<Rightarrow> Some (sort_key fallback_key cs)
         | Inl e2 \<Rightarrow> None))"

section \<open>Properties of the string functions\<close>





lemma str_contains_mid: "str_contains sub (a @ sub @ b)"
proof (induction a)
  case Nil
  show ?case
  proof (cases "sub @ b")
    case Nil
    then show ?thesis by simp
  next
    case (Cons c s)
    have "prefix sub (sub @ b)" by simp
    then have "str_contains sub (c # s)" unfolding Cons by simp
    then show ?thesis using Cons by simp
  qed
next
  case (Cons c a)
  then show ?case by simp
qed

lemma str_contains_iff: "str_contains sub s \<longleftrightarrow> (\<exists>a b. s = a @ sub @ b)"
proof
  assume "str_contains sub s"
  then show "\<exists>a b. s = a @ sub @ b"
  proof (induction s)
    case Nil
    then show ?case by simp
  next
    case (Cons c s)
    show ?case
    proof (cases "prefix sub (c # s)")
      case True
      then obtain b where "c # s = sub @ b" by (auto simp: prefix_def)
      then have "c # s = [] @ sub @ b" by simp
      then show ?thesis by blast
    next
      case False
      with Cons obtain a b where "s = a @ sub @ b" by auto
      then have "c # s = (c # a) @ sub @ b" by simp
      then show ?thesis by blast
    qed
  qed
next
  assume "\<exists>a b. s = a @ sub @ b"
  then show "str_contains sub s" using str_contains_mid by auto
qed

lemma foldl_last_wins:
  assumes "\<And>d l. f d l k = (if P l then Some (v l) else d k)"
  shows "foldl f d ls k = (if filter P ls = [] then d k else Some (v (last (filter P ls))))"
proof (induction ls rule: rev_induct)
  case Nil
  then show ?case by simp
next
  case (snoc l ls)
  show ?case
  proof (cases "P l")
    case True
    then show ?thesis using assms by simp
  next
    case False
    then show ?thesis using assms snoc by simp
  qed
qed

lemma str_split_nonempty: "str_split sep s \<noteq> []"
  by (induction s) (auto split: list.splits)

lemma hd_str_split: "hd (str_split sep s) = takeWhile (\<lambda>c. c \<noteq> sep) s"
  using str_split_nonempty by (induction s) (auto split: list.splits)

section \<open>Properties of the VCard decoder\<close>

lemma vcard_step_fn:
  "vcard_step d l ''fn'' = (if CHR '':'' \<in> set l \<and> key_name l = ''FN'' then Some (line_val l) else d ''fn'')"
  by (simp add: vcard_step_def Let_def)

lemma vcard_step_adr:
  "vcard_step d l ''adr'' = (if CHR '':'' \<in> set l \<and> key_name l = ''ADR'' then Some (str_join '', '' (filter (\<lambda>p. p \<noteq> []) (str_split CHR '';'' (line_val l)))) else d ''adr'')"
  by (simp add: vcard_step_def Let_def)

lemma vcard_step_other:
  "k \<notin> {''fn'', ''email'', ''tel'', ''org'', ''note'', ''adr''} \<Longrightarrow> vcard_step d l k = d k"
  by (simp add: vcard_step_def Let_def)

lemma str_upper_fields:
  "str_upper ''fn'' = ''FN''" "str_upper ''email'' = ''EMAIL''" "str_upper ''tel'' = ''TEL''"
  "str_upper ''org'' = ''ORG''" "str_upper ''note'' = ''NOTE''" "str_upper ''adr'' = ''ADR''"
  by (simp_all add: str_upper_def upper_char_def ascii_upper_def ascii_lower_def)

lemma key_name_eq:
  "key_name l = str_upper (takeWhile (\<lambda>c. c \<noteq> CHR '';'' \<and> c \<noteq> CHR '':'') l)"
proof -
  have "takeWhile (\<lambda>c. c \<noteq> CHR '';'') (takeWhile (\<lambda>c. c \<noteq> CHR '':'') l)
        = takeWhile (\<lambda>c. c \<noteq> CHR '';'' \<and> c \<noteq> CHR '':'') l"
    by (induction l) auto
  then show ?thesis by (simp add: key_name_def hd_str_split)
qed

lemma line_val_eq:
  assumes "CHR '':'' \<notin> set a"
  shows "line_val (a @ CHR '':'' # b) = str_strip b"
proof -
  have "dropWhile (\<lambda>c. c \<noteq> CHR '':'') (a @ CHR '':'' # b) = CHR '':'' # b"
    using assms by (induction a) auto
  then show ?thesis by (simp add: line_val_def)
qed

lemma vcard_step_email:
  "vcard_step d l ''email'' = (if CHR '':'' \<in> set l \<and> key_name l = ''EMAIL'' then Some (line_val l) else d ''email'')"
  by (simp add: vcard_step_def Let_def)

lemma vcard_step_tel:
  "vcard_step d l ''tel'' = (if CHR '':'' \<in> set l \<and> key_name l = ''TEL'' then Some (line_val l) else d ''tel'')"
  by (simp add: vcard_step_def Let_def)

lemma vcard_step_org:
  "vcard_step d l ''org'' = (if CHR '':'' \<in> set l \<and> key_name l = ''ORG'' then Some (line_val l) else d ''org'')"
  by (simp add: vcard_step_def Let_def)

lemma vcard_step_note:
  "vcard_step d l ''note'' = (if CHR '':'' \<in> set l \<and> key_name l = ''NOTE'' then Some (line_val l) else d ''note'')"
  by (simp add: vcard_step_def Let_def)

lemma parse_vcard_key:
  assumes "\<And>d l. vcard_step d l k = (if P l then Some (v l) else d k)"
  shows "parse_vcard blob k =
     (if filter P (vcard_lines blob) = [] then None
      else Some (v (last (filter P (vcard_lines blob)))))"
  unfolding parse_vcard_def using foldl_last_wins [of vcard_step k P v Map.empty, OF assms]
  by simp

lemma parse_vcard_other:
  assumes "k \<notin> {''fn'', ''email'', ''tel'', ''org'', ''note'', ''adr''}"
  shows "parse_vcard blob k = None"
proof -
  have "foldl vcard_step d ls k = d k" for d ls
    by (induction ls rule: rev_induct) (simp_all add: vcard_step_other [OF assms])
  then show ?thesis by (simp add: parse_vcard_def)
qed


text \<open>
  C7.  The decoder looks at each unfolded line that holds a colon.  The name of the line is
  what stands before the first \<open>;\<close> or \<open>:\<close>, in capitals; its value is what follows the
  first colon, stripped.  Of all names only \<open>FN\<close>, \<open>EMAIL\<close>, \<open>TEL\<close>, \<open>ORG\<close>, \<open>NOTE\<close> and
  \<open>ADR\<close> set a field; no other key is ever present in the record, and no line is an error.
  A field holds the value of the last line with its name, and for \<open>ADR\<close> the non-empty
  pieces between semicolons, joined with a comma and a space.
\<close>

theorem parse_vcard_fields:
  "parse_vcard blob k =
     (let hits = filter (\<lambda>l. CHR '':'' \<in> set l \<and> key_name l = str_upper k) (vcard_lines blob) in
      if k \<in> {''fn'', ''email'', ''tel'', ''org'', ''note'', ''adr''} \<and> hits \<noteq> [] then
        Some (if k = ''adr''
              then str_join '', '' (filter (\<lambda>p. p \<noteq> []) (str_split CHR '';'' (line_val (last hits))))
              else line_val (last hits))
      else None)
   \<and> key_name l = str_upper (takeWhile (\<lambda>c. c \<noteq> CHR '';'' \<and> c \<noteq> CHR '':'') l)
   \<and> (CHR '':'' \<notin> set a \<longrightarrow> line_val (a @ CHR '':'' # b) = str_strip b)"
proof -
  let ?rhs = "\<lambda>k. (let hits = filter (\<lambda>l. CHR '':'' \<in> set l \<and> key_name l = str_upper k) (vcard_lines blob) in
      if k \<in> {''fn'', ''email'', ''tel'', ''org'', ''note'', ''adr''} \<and> hits \<noteq> [] then
        Some (if k = ''adr''
              then str_join '', '' (filter (\<lambda>p. p \<noteq> []) (str_split CHR '';'' (line_val (last hits))))
              else line_val (last hits))
      else None)"
  have k_fn: "parse_vcard blob ''fn'' = ?rhs ''fn''"
    by (simp add: parse_vcard_key [OF vcard_step_fn] str_upper_fields Let_def)
  have k_email: "parse_vcard blob ''email'' = ?rhs ''email''"
    by (simp add: parse_vcard_key [OF vcard_step_email] str_upper_fields Let_def)
  have k_tel: "parse_vcard blob ''tel'' = ?rhs ''tel''"
    by (simp add: parse_vcard_key [OF vcard_step_tel] str_upper_fields Let_def)
  have k_org: "parse_vcard blob ''org'' = ?rhs ''org''"
    by (simp add: parse_vcard_key [OF vcard_step_org] str_upper_fields Let_def)
  have k_note: "parse_vcard blob ''note'' = ?rhs ''note''"
    by (simp add: parse_vcard_key [OF vcard_step_note] str_upper_fields Let_def)
  have k_adr: "parse_vcard blob ''adr'' = ?rhs ''adr''"
    by (simp add: parse_vcard_key [OF vcard_step_adr] str_upper_fields Let_def)
  have other: "parse_vcard blob k = ?rhs k"
    if "k \<notin> {''fn'', ''email'', ''tel'', ''org'', ''note'', ''adr''}"
    using that parse_vcard_other [of k blob] by (simp add: Let_def)
  have "parse_vcard blob k = ?rhs k"
  proof (cases "k \<in> {''fn'', ''email'', ''tel'', ''org'', ''note'', ''adr''}")
    case False
    then show ?thesis by (rule other)
  next
    case True
    then consider "k = ''fn''" | "k = ''email''" | "k = ''tel''" | "k = ''org''"
      | "k = ''note''" | "k = ''adr''"
      by blast
    then show ?thesis
    proof cases
      case 1 then show ?thesis using k_fn by blast
    next
      case 2 then show ?thesis using k_email by blast
    next
      case 3 then show ?thesis using k_tel by blast
    next
      case 4 then show ?thesis using k_org by blast
    next
      case 5 then show ?thesis using k_note by blast
    next
      case 6 then show ?thesis using k_adr by blast
    qed
  qed
  moreover note key_name_eq [of l]
  moreover have "CHR '':'' \<notin> set a \<longrightarrow> line_val (a @ CHR '':'' # b) = str_strip b"
    using line_val_eq by blast
  ultimately show ?thesis by blast
qed

lemmas vcard_eval = vcard_lines_def key_name_def line_val_def
  str_strip_def is_space_def whitespace_def is_linebreak_def linebreaks_def str_upper_def
  upper_char_def ascii_upper_def ascii_lower_def

theorem parse_vcard_fields_witness:
  "parse_vcard (''ADR;TYPE=home:;;1 Main St;Town'' @ [CHR 0x0D, CHR 0x0A] @ ''fn;x=y: Bob ''
      @ [CHR 0x0A] @ ''FN:Al'') ''fn'' = Some ''Al''
   \<and> parse_vcard (''ADR;TYPE=home:;;1 Main St;Town'' @ [CHR 0x0D, CHR 0x0A] @ ''fn;x=y: Bob ''
      @ [CHR 0x0A] @ ''FN:Al'') ''adr'' = Some ''1 Main St, Town''
   \<and> parse_vcard (''UID:77'' @ [CHR 0x0A] @ ''FN:Al'') ''uid'' = None
   \<and> CHR '':'' \<notin> set ''TEL'' \<and> line_val (''TEL'' @ CHR '':'' # '' 12 '') = ''12''"
proof -
  let ?B = "''ADR;TYPE=home:;;1 Main St;Town'' @ [CHR 0x0D, CHR 0x0A] @ ''fn;x=y: Bob ''
      @ [CHR 0x0A] @ ''FN:Al''"
  have "parse_vcard ?B ''fn'' = Some ''Al''"
    using parse_vcard_fields [of ?B "''fn''" "[]" "[]" "[]"]
    by (simp add: vcard_eval)
  moreover have "parse_vcard ?B ''adr'' = Some ''1 Main St, Town''"
    using parse_vcard_fields [of ?B "''adr''" "[]" "[]" "[]"]
    by (simp add: vcard_eval)
  moreover have "parse_vcard (''UID:77'' @ [CHR 0x0A] @ ''FN:Al'') ''uid'' = None"
    using parse_vcard_fields [of "''UID:77'' @ [CHR 0x0A] @ ''FN:Al''" "''uid''" "[]" "[]" "[]"]
    by simp
  moreover have "CHR '':'' \<notin> set ''TEL''" by simp
  moreover from this have "line_val (''TEL'' @ CHR '':'' # '' 12 '') = ''12''"
    using parse_vcard_fields [of "[]" "[]" "[]" "''TEL''" "'' 12 ''"]
    by (simp add: str_strip_def is_space_def whitespace_def)
  ultimately show ?thesis by blast
qed

section \<open>Unfolding of folded lines\<close>







section \<open>Partial updates\<close>

text \<open>
  C8.  The body of a partial update holds \<open>description\<close>, \<open>order\<close>, \<open>duedate\<close> and
  \<open>archived\<close> exactly when the parameter is not \<open>None\<close>, with the value given, an empty
  string too.  It holds \<open>title\<close>, and for a label \<open>color\<close>, exactly when the parameter is a
  non-empty string: these two are set under \<open>if title:\<close> and \<open>if color:\<close>.  No other key is in
  the body.
\<close>

theorem partial_update_fields:
  "update_deck_card_data title description order duedate archived k =
     (if k = ''title'' then (if truthy title then map_option JStr title else None)
      else if k = ''description'' then map_option JStr description
      else if k = ''order'' then map_option JInt order
      else if k = ''duedate'' then map_option JStr duedate
      else if k = ''archived'' then map_option JBool archived
      else None)
   \<and> update_deck_stack_data title order k =
     (if k = ''title'' then (if truthy title then map_option JStr title else None)
      else if k = ''order'' then map_option JInt order
      else None)
   \<and> update_deck_label_data title color k =
     (if k = ''title'' then (if truthy title then map_option JStr title else None)
      else if k = ''color'' then (if truthy color then map_option JStr color else None)
      else None)"
  by (simp add: update_deck_card_data_def update_deck_stack_data_def update_deck_label_data_def
      set_if_truthy_def set_if_not_None_def truthy_def split: option.splits)

theorem partial_update_fields_witness:
  "update_deck_card_data (Some ''Buy milk'') None (Some 3) None (Some True) ''title''
     = Some (JStr ''Buy milk'')
   \<and> update_deck_card_data (Some ''Buy milk'') None (Some 3) None (Some True) ''description'' = None
   \<and> update_deck_card_data (Some ''Buy milk'') (Some []) (Some 3) None (Some True) ''description''
     = Some (JStr [])
   \<and> update_deck_stack_data None (Some 0) ''order'' = Some (JInt 0)
   \<and> update_deck_label_data (Some ''Urgent'') (Some []) ''color'' = None"
  using partial_update_fields [where title = "Some ''Buy milk''" and description = None
      and order = "Some 3" and duedate = None and archived = "Some True" and k = "''title''"]
    partial_update_fields [where title = "Some ''Buy milk''" and description = None
      and order = "Some 3" and duedate = None and archived = "Some True" and k = "''description''"]
    partial_update_fields [where title = "Some ''Buy milk''" and description = "Some []"
      and order = "Some 3" and duedate = None and archived = "Some True" and k = "''description''"]
    partial_update_fields [where title = None and order = "Some 0" and k = "''order''"]
    partial_update_fields [where title = "Some ''Urgent''" and color = "Some []" and k = "''color''"]
  by (simp add: truthy_def)

theorem partial_update_counterexample:
  "Some [] \<noteq> (None :: string option)
   \<and> ''title'' \<notin> dom (update_deck_card_data (Some []) None None None None)
   \<and> ''title'' \<notin> dom (update_deck_stack_data (Some []) None)
   \<and> ''color'' \<notin> dom (update_deck_label_data None (Some []))"
  by (simp add: update_deck_card_data_def update_deck_stack_data_def update_deck_label_data_def
      set_if_truthy_def set_if_not_None_def dom_def)

section \<open>Not found\<close>

lemma not_found_in:
  "str_contains ''not found'' (a @ [CHR 0x27] @ path @ [CHR 0x27] @ '' not found.'')"
proof -
  have "a @ [CHR 0x27] @ path @ [CHR 0x27] @ '' not found.''
        = (a @ [CHR 0x27] @ path @ [CHR 0x27] @ '' '') @ ''not found'' @ ''.''"
    by simp
  then show ?thesis by (simp only: str_contains_mid)
qed

lemma raise_404: "status_code r = 404 \<Longrightarrow> raise_for_status r = Inl (Exc HTTPError (status_msg r))"
  by (simp add: raise_for_status_def)

text \<open>
  C3.  On a response with status 404, \<open>read_file\<close>, \<open>delete_file\<close>, \<open>list_files\<close>,
  \<open>list_files_raw\<close>, \<open>list_notes\<close> and \<open>list_notes_raw\<close> return a text that contains
  \<open>not found\<close> and raise nothing.  \<open>get_note\<close> and \<open>delete_note\<close> have no branch for 404: there
  \<open>raise_for_status\<close> raises \<open>HTTPError\<close>, which reaches the caller.
\<close>

theorem not_found_results:
  assumes "status_code r = 404"
  shows "(\<exists>m. read_file path (Inr r) = Inr m \<and> str_contains ''not found'' m)
       \<and> (\<exists>m. delete_file path (Inr r) = Inr m \<and> str_contains ''not found'' m)
       \<and> (\<exists>m. list_files unquote path (Inr r) = Inr m \<and> str_contains ''not found'' m)
       \<and> (\<exists>m. list_files_raw unquote path (Inr r) = Inr (None, Some m)
              \<and> str_contains ''not found'' m)
       \<and> (\<exists>m. list_notes py_str (Inr r) = Inr m \<and> str_contains ''not found'' m)
       \<and> (\<exists>m. list_notes_raw (Inr r) = Inr (None, Some m) \<and> str_contains ''not found'' m)
       \<and> get_note py_str note_id (Inr r) = Inl (Exc HTTPError (status_msg r))
       \<and> delete_note note_id (Inr r) = Inl (Exc HTTPError (status_msg r))"
proof -
  have 1: "\<exists>m. read_file path (Inr r) = Inr m \<and> str_contains ''not found'' m"
    using assms not_found_in [of "''Error: File ''"] by (simp add: read_file_def)
  have 2: "\<exists>m. delete_file path (Inr r) = Inr m \<and> str_contains ''not found'' m"
    using assms not_found_in [of "''Error: File ''"] by (simp add: delete_file_def)
  have 3: "\<exists>m. list_files unquote path (Inr r) = Inr m \<and> str_contains ''not found'' m"
    using assms not_found_in [of "''Error: Path ''"] by (simp add: list_files_def)
  have 4: "\<exists>m. list_files_raw unquote path (Inr r) = Inr (None, Some m)
              \<and> str_contains ''not found'' m"
    using assms not_found_in [of "''Error: Path ''"] by (simp add: list_files_raw_def)
  have 5: "\<exists>m. list_notes py_str (Inr r) = Inr m \<and> str_contains ''not found'' m"
    using assms str_contains_mid [of "''not found''" "''Notes app ''"
        "'' or not enabled on this Nextcloud instance.''"]
    by (simp add: list_notes_def)
  have 6: "\<exists>m. list_notes_raw (Inr r) = Inr (None, Some m) \<and> str_contains ''not found'' m"
    using assms str_contains_mid [of "''not found''" "''Notes app ''" "''.''"]
    by (simp add: list_notes_raw_def)
  have 7: "get_note py_str note_id (Inr r) = Inl (Exc HTTPError (status_msg r))"
    using assms by (simp add: get_note_def raise_404)
  have 8: "delete_note note_id (Inr r) = Inl (Exc HTTPError (status_msg r))"
    using assms by (simp add: delete_note_def raise_404)
  from 1 2 3 4 5 6 7 8 show ?thesis by blast
qed

theorem not_found_results_witness:
  "status_code \<lparr>status_code = 404, body_text = [],
      content_xml = Inl (Exc XMLSyntaxError ''Document is empty''),
      json_body = Inl (Exc JSONDecodeError ''Expecting value''),
      status_msg = ''404 Client Error: Not Found''\<rparr> = 404
   \<and> (\<exists>m. read_file ''missing.txt'' (Inr \<lparr>status_code = 404, body_text = [],
      content_xml = Inl (Exc XMLSyntaxError ''Document is empty''),
      json_body = Inl (Exc JSONDecodeError ''Expecting value''),
      status_msg = ''404 Client Error: Not Found''\<rparr>) = Inr m \<and> str_contains ''not found'' m)
   \<and> delete_note 7 (Inr \<lparr>status_code = 404, body_text = [],
      content_xml = Inl (Exc XMLSyntaxError ''Document is empty''),
      json_body = Inl (Exc JSONDecodeError ''Expecting value''),
      status_msg = ''404 Client Error: Not Found''\<rparr>)
     = Inl (Exc HTTPError ''404 Client Error: Not Found'')"
proof -
  let ?r = "\<lparr>status_code = 404, body_text = [],
      content_xml = Inl (Exc XMLSyntaxError ''Document is empty''),
      json_body = Inl (Exc JSONDecodeError ''Expecting value''),
      status_msg = ''404 Client Error: Not Found''\<rparr>"
  have h: "status_code ?r = 404" by simp
  from not_found_results [OF h, of "''missing.txt''" "\<lambda>s. s" "\<lambda>j. []" 7] h
  show ?thesis by simp
qed

theorem not_found_counterexample:
  "delete_note 7 (Inr \<lparr>status_code = 404, body_text = [],
      content_xml = Inl (Exc XMLSyntaxError ''Document is empty''),
      json_body = Inl (Exc JSONDecodeError ''Expecting value''),
      status_msg = ''404 Client Error: Not Found''\<rparr>)
     = Inl (Exc HTTPError ''404 Client Error: Not Found'')
   \<and> get_note (\<lambda>j. []) 7 (Inr \<lparr>status_code = 404, body_text = [],
      content_xml = Inl (Exc XMLSyntaxError ''Document is empty''),
      json_body = Inl (Exc JSONDecodeError ''Expecting value''),
      status_msg = ''404 Client Error: Not Found''\<rparr>)
     = Inl (Exc HTTPError ''404 Client Error: Not Found'')"
  by (simp add: delete_note_def get_note_def raise_for_status_def)

section \<open>Parse failures, and the contact listings that never raise\<close>

lemma raise_ok:
  "\<not> (400 \<le> status_code r \<and> status_code r < 600) \<Longrightarrow> raise_for_status r = Inr ()"
  by (simp add: raise_for_status_def)

text \<open>
  C4.  For a response whose status is not an error and whose body is not well-formed XML,
  each DAV listing catches the parse error and returns its own error text with the message
  of the error: \<open>list_files\<close>, \<open>list_calendars\<close>, \<open>list_addressbooks\<close>,
  \<open>list_calendar_events\<close>, their raw variants, and \<open>list_contacts_raw\<close> when the fallback
  document is malformed too.  For a body that is not JSON, \<open>response.json()\<close> raises in
  \<open>list_notes\<close>, \<open>list_notes_raw\<close> and \<open>get_note\<close> outside any \<open>try\<close>: the error is not
  caught and reaches the caller.
\<close>

theorem parse_failures:
  assumes "\<not> (400 \<le> status_code r \<and> status_code r < 600)"
  shows "(content_xml r = Inl e \<longrightarrow>
            list_files unquote path (Inr r) = Inr (''Error parsing WebDAV response: '' @ str_exc e)
          \<and> list_files_raw unquote path (Inr r)
              = Inr (None, Some (''Error parsing WebDAV response: '' @ str_exc e))
          \<and> list_calendars (Inr r) = Inr (''Error listing calendars: '' @ str_exc e)
          \<and> list_calendars_raw (Inr r) = Inr (None, Some (''Error: '' @ str_exc e))
          \<and> list_addressbooks (Inr r) = Inr (''Error listing address books: '' @ str_exc e)
          \<and> list_addressbooks_raw (Inr r) = Inr (None, Some (''Error: '' @ str_exc e))
          \<and> list_calendar_events cal start stop (Inr r)
              = Inr (''Error listing events: '' @ str_exc e)
          \<and> list_calendar_events_raw (Inr r) = Inr (None, Some (''Error: '' @ str_exc e))
          \<and> list_contacts_raw page limit search_term (Inr r) (Inr r)
              = (None, Some (''Error listing contacts: '' @ str_exc e @ '' / '' @ str_exc e)))
       \<and> (json_body r = Inl e \<longrightarrow>
            list_notes py_str (Inr r) = Inl e
          \<and> list_notes_raw (Inr r) = Inl e
          \<and> get_note py_str note_id (Inr r) = Inl e)"
proof -
  note ok = raise_ok [OF assms]
  from assms have nf: "status_code r \<noteq> 404" by auto
  have x: "list_files unquote path (Inr r) = Inr (''Error parsing WebDAV response: '' @ str_exc e)"
    "list_files_raw unquote path (Inr r)
      = Inr (None, Some (''Error parsing WebDAV response: '' @ str_exc e))"
    "list_calendars (Inr r) = Inr (''Error listing calendars: '' @ str_exc e)"
    "list_calendars_raw (Inr r) = Inr (None, Some (''Error: '' @ str_exc e))"
    "list_addressbooks (Inr r) = Inr (''Error listing address books: '' @ str_exc e)"
    "list_addressbooks_raw (Inr r) = Inr (None, Some (''Error: '' @ str_exc e))"
    "list_calendar_events cal start stop (Inr r) = Inr (''Error listing events: '' @ str_exc e)"
    "list_calendar_events_raw (Inr r) = Inr (None, Some (''Error: '' @ str_exc e))"
    "list_contacts_raw page limit search_term (Inr r) (Inr r)
      = (None, Some (''Error listing contacts: '' @ str_exc e @ '' / '' @ str_exc e))"
    if "content_xml r = Inl e"
    using that ok nf
    by (simp_all add: list_files_def list_files_raw_def list_calendars_def list_calendars_raw_def
        list_addressbooks_def list_addressbooks_raw_def list_collections_def
        list_collections_raw_def list_calendar_events_def list_calendar_events_raw_def
        list_contacts_raw_def try_report_def try_fallback_def report_contacts_def
        fallback_contacts_def)
  have j: "list_notes py_str (Inr r) = Inl e" "list_notes_raw (Inr r) = Inl e"
    "get_note py_str note_id (Inr r) = Inl e"
    if "json_body r = Inl e"
    using that ok nf by (simp_all add: list_notes_def list_notes_raw_def get_note_def)
  from x j show ?thesis by blast
qed

theorem parse_failures_witness:
  "\<not> (400 \<le> status_code \<lparr>status_code = 207, body_text = ''<d:multistatus'',
        content_xml = Inl (Exc XMLSyntaxError ''Premature end of data''),
        json_body = Inl (Exc JSONDecodeError ''Expecting value''), status_msg = []\<rparr>
      \<and> status_code \<lparr>status_code = 207, body_text = ''<d:multistatus'',
        content_xml = Inl (Exc XMLSyntaxError ''Premature end of data''),
        json_body = Inl (Exc JSONDecodeError ''Expecting value''), status_msg = []\<rparr> < 600)
   \<and> list_files (\<lambda>s. s) ''Documents'' (Inr \<lparr>status_code = 207, body_text = ''<d:multistatus'',
        content_xml = Inl (Exc XMLSyntaxError ''Premature end of data''),
        json_body = Inl (Exc JSONDecodeError ''Expecting value''), status_msg = []\<rparr>)
      = Inr ''Error parsing WebDAV response: Premature end of data''
   \<and> list_calendars_raw (Inr \<lparr>status_code = 207, body_text = ''<d:multistatus'',
        content_xml = Inl (Exc XMLSyntaxError ''Premature end of data''),
        json_body = Inl (Exc JSONDecodeError ''Expecting value''), status_msg = []\<rparr>)
      = Inr (None, Some ''Error: Premature end of data'')
   \<and> get_note (\<lambda>j. []) 7 (Inr \<lparr>status_code = 207, body_text = ''<d:multistatus'',
        content_xml = Inl (Exc XMLSyntaxError ''Premature end of data''),
        json_body = Inl (Exc JSONDecodeError ''Expecting value''), status_msg = []\<rparr>)
      = Inl (Exc JSONDecodeError ''Expecting value'')"
proof -
  let ?r = "\<lparr>status_code = 207, body_text = ''<d:multistatus'',
        content_xml = Inl (Exc XMLSyntaxError ''Premature end of data''),
        json_body = Inl (Exc JSONDecodeError ''Expecting value''), status_msg = []\<rparr>"
  have h: "\<not> (400 \<le> status_code ?r \<and> status_code ?r < 600)" by simp
  from parse_failures [OF h, of "Exc XMLSyntaxError ''Premature end of data''" "\<lambda>s. s"
      "''Documents''" "[]" "[]" "[]" 1 30 None "\<lambda>j. []" 7]
    parse_failures [OF h, of "Exc JSONDecodeError ''Expecting value''" "\<lambda>s. s"
      "''Documents''" "[]" "[]" "[]" 1 30 None "\<lambda>j. []" 7] h
  show ?thesis by simp
qed

theorem parse_failures_counterexample:
  "list_notes (\<lambda>j. []) (Inr \<lparr>status_code = 200, body_text = ''<html>Maintenance</html>'',
        content_xml = Inl (Exc XMLSyntaxError ''Premature end of data''),
        json_body = Inl (Exc JSONDecodeError ''Expecting value''), status_msg = []\<rparr>)
     = Inl (Exc JSONDecodeError ''Expecting value'')"
  by (simp add: list_notes_def raise_for_status_def)



section \<open>File listings\<close>

lemma file_item_fields:
  assumes "file_item unquote el = Inr x"
  shows "\<exists>it. x = Some it \<and> is_directory it = has_collection el
           \<and> size_val it = contentlength_text el"
  using assms
  by (auto simp: file_item_def text_of_def find_in_def py_unquote_def prop_of_def
      has_collection_def contentlength_text_def Let_def
      split: option.splits sum.splits)

lemma collect_file_items:
  "collect (file_item unquote) els = Inr items \<Longrightarrow>
   list_all2 (\<lambda>el it. is_directory it = has_collection el \<and> size_val it = contentlength_text el)
     els items"
proof (induction els arbitrary: items)
  case Nil
  then show ?case by simp
next
  case (Cons el els)
  from Cons.prems obtain x rest where x: "file_item unquote el = Inr x"
    and rest: "collect (file_item unquote) els = Inr rest"
    and items: "items = (case x of None \<Rightarrow> rest | Some v \<Rightarrow> v # rest)"
    by (auto split: sum.splits)
  from file_item_fields [OF x] obtain it where it: "x = Some it"
    "is_directory it = has_collection el" "size_val it = contentlength_text el" by blast
  with Cons.IH [OF rest] items show ?case by simp
qed

text \<open>
  C5.  When \<open>list_files_raw\<close> returns a listing, there is one record for each
  \<open>response\<close> element of the document, in order; \<open>is_directory\<close> is true exactly when the
  \<open>resourcetype\<close> of the element's \<open>prop\<close> has a \<open>collection\<close> child; and the size is the text
  of \<open>getcontentlength\<close> as the server sent it, \<open>"0"\<close> when there is no such element.  The
  size is a string that is never checked: nothing makes it a number, or non-negative.
\<close>

theorem file_listing_records:
  assumes "list_files_raw unquote path propfind = Inr (Some items, err)"
  shows "\<exists>r tree. propfind = Inr r \<and> content_xml r = Inr tree \<and> err = None
           \<and> list_all2 (\<lambda>el it. (is_directory it \<longleftrightarrow> has_collection el)
                                  \<and> size_val it = contentlength_text el)
                (findall ''{DAV:}response'' tree) items"
proof -
  from assms obtain r where r: "propfind = Inr r"
    by (cases propfind) (simp_all add: list_files_raw_def)
  from assms r have nf: "status_code r \<noteq> 404"
    by (auto simp: list_files_raw_def Let_def)
  from assms r nf obtain tree where tree: "content_xml r = Inr tree"
    by (cases "content_xml r") (auto simp: list_files_raw_def Let_def split: sum.splits)
  from assms r nf tree have c: "collect (file_item unquote) (findall ''{DAV:}response'' tree) = Inr items"
    and e: "err = None"
    by (auto simp: list_files_raw_def Let_def split: sum.splits)
  from collect_file_items [OF c] r tree e show ?thesis by simp
qed

theorem file_listing_records_witness:
  "list_files_raw (\<lambda>s. s) ''/'' (Inr \<lparr>status_code = 207, body_text = [],
      content_xml = Inr (Elem ''{DAV:}multistatus'' None
        [Elem ''{DAV:}response'' None
          [Elem ''{DAV:}href'' (Some ''/dav/files/u/Documents/'') [],
           Elem ''{DAV:}propstat'' None
            [Elem ''{DAV:}prop'' None
              [Elem ''{DAV:}resourcetype'' None [Elem ''{DAV:}collection'' None []]]]],
         Elem ''{DAV:}response'' None
          [Elem ''{DAV:}href'' (Some ''/dav/files/u/a.txt'') [],
           Elem ''{DAV:}propstat'' None
            [Elem ''{DAV:}prop'' None
              [Elem ''{DAV:}resourcetype'' None [],
               Elem ''{DAV:}getcontentlength'' (Some ''42'') []]]]]),
      json_body = Inl (Exc JSONDecodeError []), status_msg = []\<rparr>)
   = Inr (Some [\<lparr>name = Some ''Documents'', href = Some ''/dav/files/u/Documents/'',
                  is_directory = True, size_val = Some ''0''\<rparr>,
                \<lparr>name = Some ''a.txt'', href = Some ''/dav/files/u/a.txt'',
                  is_directory = False, size_val = Some ''42''\<rparr>], None)
   \<and> list_all2 (\<lambda>el it. (is_directory it \<longleftrightarrow> has_collection el)
                          \<and> size_val it = contentlength_text el)
        [Elem ''{DAV:}response'' None
          [Elem ''{DAV:}href'' (Some ''/dav/files/u/Documents/'') [],
           Elem ''{DAV:}propstat'' None
            [Elem ''{DAV:}prop'' None
              [Elem ''{DAV:}resourcetype'' None [Elem ''{DAV:}collection'' None []]]]],
         Elem ''{DAV:}response'' None
          [Elem ''{DAV:}href'' (Some ''/dav/files/u/a.txt'') [],
           Elem ''{DAV:}propstat'' None
            [Elem ''{DAV:}prop'' None
              [Elem ''{DAV:}resourcetype'' None [],
               Elem ''{DAV:}getcontentlength'' (Some ''42'') []]]]]
        [\<lparr>name = Some ''Documents'', href = Some ''/dav/files/u/Documents/'',
                  is_directory = True, size_val = Some ''0''\<rparr>,
                \<lparr>name = Some ''a.txt'', href = Some ''/dav/files/u/a.txt'',
                  is_directory = False, size_val = Some ''42''\<rparr>]"
proof -
  let ?tree = "Elem ''{DAV:}multistatus'' None
        [Elem ''{DAV:}response'' None
          [Elem ''{DAV:}href'' (Some ''/dav/files/u/Documents/'') [],
           Elem ''{DAV:}propstat'' None
            [Elem ''{DAV:}prop'' None
              [Elem ''{DAV:}resourcetype'' None [Elem ''{DAV:}collection'' None []]]]],
         Elem ''{DAV:}response'' None
          [Elem ''{DAV:}href'' (Some ''/dav/files/u/a.txt'') [],
           Elem ''{DAV:}propstat'' None
            [Elem ''{DAV:}prop'' None
              [Elem ''{DAV:}resourcetype'' None [],
               Elem ''{DAV:}getcontentlength'' (Some ''42'') []]]]]"
  let ?r = "\<lparr>status_code = 207, body_text = [], content_xml = Inr ?tree,
      json_body = Inl (Exc JSONDecodeError []), status_msg = []\<rparr>"
  let ?items = "[\<lparr>name = Some ''Documents'', href = Some ''/dav/files/u/Documents/'',
                  is_directory = True, size_val = Some ''0''\<rparr>,
                \<lparr>name = Some ''a.txt'', href = Some ''/dav/files/u/a.txt'',
                  is_directory = False, size_val = Some ''42''\<rparr>]"
  have h: "list_files_raw (\<lambda>s. s) ''/'' (Inr ?r) = Inr (Some ?items, None)"
    by (simp add: list_files_raw_def str_lstrip_def raise_for_status_def findall_def
        file_item_def text_of_def find_in_def find_child_def py_unquote_def basename_def
        str_rstrip_def)
  from file_listing_records [OF h] have
    "list_all2 (\<lambda>el it. (is_directory it \<longleftrightarrow> has_collection el)
                          \<and> size_val it = contentlength_text el)
        (findall ''{DAV:}response'' ?tree) ?items"
    by simp
  then have "list_all2 (\<lambda>el it. (is_directory it \<longleftrightarrow> has_collection el)
                          \<and> size_val it = contentlength_text el)
        (children ?tree) ?items"
    by (simp add: findall_def)
  with h show ?thesis by simp
qed

theorem file_size_counterexample:
  "list_files_raw (\<lambda>s. s) ''/'' (Inr \<lparr>status_code = 207, body_text = [],
      content_xml = Inr (Elem ''{DAV:}multistatus'' None
        [Elem ''{DAV:}response'' None
          [Elem ''{DAV:}href'' (Some ''/dav/files/u/a.txt'') [],
           Elem ''{DAV:}propstat'' None
            [Elem ''{DAV:}prop'' None
              [Elem ''{DAV:}getcontentlength'' (Some ''-1'') []]]]]),
      json_body = Inl (Exc JSONDecodeError []), status_msg = []\<rparr>)
   = Inr (Some [\<lparr>name = Some ''a.txt'', href = Some ''/dav/files/u/a.txt'',
                  is_directory = False, size_val = Some ''-1''\<rparr>], None)
   \<and> py_int (Some ''-1'') = Inr (- 1) \<and> \<not> (0 :: int) \<le> - 1"
  by (simp add: list_files_raw_def str_lstrip_def raise_for_status_def findall_def
        file_item_def text_of_def find_in_def find_child_def py_unquote_def basename_def
        str_rstrip_def py_int_def str_strip_def is_space_def whitespace_def digit_of_def)

section \<open>Search, order and pagination of contacts\<close>

lemma ceil_div_int:
  fixes N L :: int
  assumes "0 < L"
  shows "(N + L - 1) div L = - (- N div L)"
proof -
  define q where "q = N div L"
  define r where "r = N mod L"
  have N: "N = L * q + r" by (simp add: q_def r_def)
  have r: "0 \<le> r" "r < L" using assms by (simp_all add: r_def)
  have L: "L \<noteq> 0" using assms by simp
  show ?thesis
  proof (cases "r = 0")
    case True
    have "(N + L - 1) div L = ((L - 1) + L * q) div L" using N True by (simp add: algebra_simps)
    also have "\<dots> = q + (L - 1) div L" using L by (rule div_mult_self2)
    also have "(L - 1) div L = 0" using assms by (simp add: div_pos_pos_trivial)
    finally have lhs: "(N + L - 1) div L = q" by simp
    have "- N div L = - q" using True L
      by (simp add: zdiv_zminus1_eq_if q_def r_def)
    with lhs show ?thesis by simp
  next
    case False
    have "(N + L - 1) div L = ((r - 1) + L * (q + 1)) div L" using N by (simp add: algebra_simps)
    also have "\<dots> = (q + 1) + (r - 1) div L" using L by (rule div_mult_self2)
    also have "(r - 1) div L = 0" using r False by (simp add: div_pos_pos_trivial)
    finally have lhs: "(N + L - 1) div L = q + 1" by simp
    have "- N div L = - q - 1" using False L
      by (simp add: zdiv_zminus1_eq_if q_def r_def)
    with lhs show ?thesis by simp
  qed
qed

lemma total_pages_ceiling:
  "0 < L \<Longrightarrow> total_pages N L = \<lceil>real_of_int N / real_of_int L\<rceil>"
  by (simp add: total_pages_def ceil_div_int ceiling_divide_eq_div)

lemma py_slice_window:
  assumes "0 \<le> s" "0 \<le> L"
  shows "py_slice xs s (s + L) = take (nat L) (drop (nat s) xs)"
proof -
  have a: "slice_index (length xs) s = min (length xs) (nat s)"
    using assms by (auto simp: slice_index_def)
  have b: "slice_index (length xs) (s + L) = min (length xs) (nat s + nat L)"
    using assms by (auto simp: slice_index_def nat_add_distrib)
  show ?thesis
    unfolding py_slice_def Let_def a b
    by (cases "nat s \<le> length xs") (auto simp: min_def)
qed

lemma py_slice_page:
  assumes "0 < L" "1 \<le> p"
  shows "py_slice xs ((p - 1) * L) ((p - 1) * L + L) = take (nat L) (drop (nat ((p - 1) * L)) xs)"
  using assms by (intro py_slice_window) simp_all

lemma concat_pages:
  "concat (map (\<lambda>i. take L (drop (i * L) xs)) [0..<n]) = take (n * L) xs"
proof (induction n)
  case 0
  then show ?case by simp
next
  case (Suc n)
  have "take (n * L) xs @ take L (drop (n * L) xs) = take (n * L + L) xs"
    by (simp add: take_add)
  with Suc show ?case by (simp add: add.commute)
qed

lemma upto_as_upt: "[1..int n] = map (\<lambda>i. int i + 1) [0..<n]"
proof (induction n)
  case 0
  then show ?case by simp
next
  case (Suc n)
  have "[1..int (Suc n)] = [1..int n] @ [int n + 1]"
    by (simp add: upto_rec2 add.commute)
  with Suc show ?case by simp
qed

lemma concat_all_pages:
  assumes "0 < L"
  shows "concat (map (\<lambda>q. py_slice xs ((q - 1) * L) ((q - 1) * L + L))
            [1..total_pages (int (length xs)) L]) = xs"
proof -
  let ?tp = "total_pages (int (length xs)) L"
  have tp: "?tp = \<lceil>real (length xs) / real_of_int L\<rceil>"
    using total_pages_ceiling [OF assms, of "int (length xs)"] by simp
  have nonneg: "0 \<le> ?tp"
    using assms by (simp add: total_pages_def pos_imp_zdiv_nonneg_iff)
  define n where "n = nat ?tp"
  have n: "?tp = int n" using nonneg by (simp add: n_def)
  have "real (length xs) \<le> of_int ?tp * real_of_int L"
    unfolding tp using assms ceiling_divide_upper [of "real_of_int L" "real (length xs)"] by simp
  then have "real (length xs) \<le> real (n * nat L)"
    using assms n by simp
  then have cover: "length xs \<le> n * nat L" by linarith
  have page: "py_slice xs (int i * L) (int i * L + L) = take (nat L) (drop (i * nat L) xs)" for i
    using py_slice_window [of "int i * L" L xs] assms by (simp add: nat_mult_distrib)
  have "concat (map (\<lambda>q. py_slice xs ((q - 1) * L) ((q - 1) * L + L)) [1..?tp])
        = concat (map (\<lambda>i. take (nat L) (drop (i * nat L) xs)) [0..<n])"
    unfolding n upto_as_upt by (simp add: comp_def page del: upt.simps)
  also have "\<dots> = take (n * nat L) xs" by (rule concat_pages)
  also have "\<dots> = xs" using cover by simp
  finally show ?thesis .
qed





text \<open>
  C1.  Let \<open>S\<close> be the whole sorted, filtered list and \<open>L > 0\<close> the page limit.  For every
  page \<open>p\<close> the raw listing returns the slice \<open>S[(p-1)*L : (p-1)*L+L]\<close> and the total
  \<open>len(S)\<close>, counted before slicing; for \<open>p \<ge> 1\<close> the slice is the \<open>L\<close> contacts after the
  first \<open>(p-1)*L\<close>.  The page count of \<open>list_contacts\<close> is the ceiling of \<open>len(S) / L\<close>, and
  its text reports the page, that count and the total.  The pages 1 to the page count, put
  end to end, are \<open>S\<close>.
\<close>

theorem contacts_pagination:
  assumes "sorted_contacts search_term report propfind = Some S" and "0 < L"
  shows "list_contacts_raw p L search_term report propfind
           = (Some \<lparr>contacts = py_slice S ((p - 1) * L) ((p - 1) * L + L),
                    total = int (length S)\<rparr>, None)
       \<and> (1 \<le> p \<longrightarrow> py_slice S ((p - 1) * L) ((p - 1) * L + L)
                        = take (nat L) (drop (nat ((p - 1) * L)) S))
       \<and> total_pages (int (length S)) L = \<lceil>real (length S) / real_of_int L\<rceil>
       \<and> concat (map (\<lambda>q. py_slice S ((q - 1) * L) ((q - 1) * L + L))
            [1..total_pages (int (length S)) L]) = S
       \<and> list_contacts book p L search_term report propfind
           = (case collect (contact_line search_term)
                     (py_slice S ((p - 1) * L) ((p - 1) * L + L)) of
                Inl e \<Rightarrow> Inl e
              | Inr ls \<Rightarrow>
                Inr (''Contacts in '' @ book @ '' (Page '' @ str_int p @ ''/''
                     @ str_int \<lceil>real (length S) / real_of_int L\<rceil> @ '', ''
                     @ str_int (int (length S)) @ '' total):'' @ [CHR 0x0A] @ concat ls))"
proof -
  have raw: "list_contacts_raw p L search_term report propfind
           = (Some \<lparr>contacts = py_slice S ((p - 1) * L) ((p - 1) * L + L),
                    total = int (length S)\<rparr>, None)"
  proof (cases "report_contacts search_term report")
    case (Inr cs)
    with assms(1) have "S = sort_key fn_key cs" by (simp add: sorted_contacts_def)
    with Inr show ?thesis
      by (simp add: list_contacts_raw_def try_report_def paginate_def Let_def)
  next
    case (Inl e)
    with assms(1) obtain cs where cs: "fallback_contacts search_term propfind = Inr cs"
      and S: "S = sort_key fallback_key cs"
      by (auto simp: sorted_contacts_def split: sum.splits)
    with Inl show ?thesis
      by (simp add: list_contacts_raw_def try_report_def try_fallback_def paginate_def Let_def)
  qed
  have tp: "total_pages (int (length S)) L = \<lceil>real (length S) / real_of_int L\<rceil>"
    using total_pages_ceiling [OF assms(2), of "int (length S)"] by simp
  have shown: "list_contacts book p L search_term report propfind
           = (case collect (contact_line search_term)
                     (py_slice S ((p - 1) * L) ((p - 1) * L + L)) of
                Inl e \<Rightarrow> Inl e
              | Inr ls \<Rightarrow>
                Inr (''Contacts in '' @ book @ '' (Page '' @ str_int p @ ''/''
                     @ str_int \<lceil>real (length S) / real_of_int L\<rceil> @ '', ''
                     @ str_int (int (length S)) @ '' total):'' @ [CHR 0x0A] @ concat ls))"
    unfolding list_contacts_def raw by (simp add: contacts_text_def tp split: sum.splits)
  from raw tp shown py_slice_page [OF assms(2)] concat_all_pages [OF assms(2)]
  show ?thesis by blast
qed

lemmas report_eval = report_contacts_def raise_for_status_def findall_def report_item_def
  text_of_def find_in_def find_child_def py_basename_def basename_def passed_over_def

lemmas match_eval = term_matches_def dict_get_def str_lower_def lower_char_def fn_key_def
  parse_vcard_def vcard_step_def vcard_eval


theorem contacts_pagination_witness:
  "let r = \<lparr>status_code = 207, body_text = [],
              content_xml = Inr (Elem ''{DAV:}multistatus'' None
                [Elem ''{DAV:}response'' None
                  [Elem ''{DAV:}href'' (Some ''/ab/bob.vcf'') [],
                   Elem ''{DAV:}propstat'' None
                    [Elem ''{DAV:}prop'' None
                      [Elem ''{urn:ietf:params:xml:ns:carddav}address-data'' (Some ''FN:Bob'') []]]],
                 Elem ''{DAV:}response'' None
                  [Elem ''{DAV:}href'' (Some ''/ab/alice.vcf'') [],
                   Elem ''{DAV:}propstat'' None
                    [Elem ''{DAV:}prop'' None
                      [Elem ''{urn:ietf:params:xml:ns:carddav}address-data'' (Some ''FN:alice'') []]]]]),
              json_body = Inl (Exc JSONDecodeError []), status_msg = []\<rparr>;
       e = Inl (Exc RequestException []);
       cb = (parse_vcard ''FN:Bob'')(''href'' \<mapsto> ''bob.vcf'');
       ca = (parse_vcard ''FN:alice'')(''href'' \<mapsto> ''alice.vcf'')
   in sorted_contacts None (Inr r) e = Some [ca, cb] \<and> (0 :: int) < 1
      \<and> list_contacts_raw 1 1 None (Inr r) e = (Some \<lparr>contacts = [ca], total = 2\<rparr>, None)
      \<and> list_contacts_raw 2 1 None (Inr r) e = (Some \<lparr>contacts = [cb], total = 2\<rparr>, None)
      \<and> total_pages 2 1 = 2
      \<and> concat (map (\<lambda>q. py_slice [ca, cb] ((q - 1) * 1) ((q - 1) * 1 + 1)) [1..2]) = [ca, cb]"
proof -
  let ?r = "\<lparr>status_code = 207, body_text = [],
              content_xml = Inr (Elem ''{DAV:}multistatus'' None
                [Elem ''{DAV:}response'' None
                  [Elem ''{DAV:}href'' (Some ''/ab/bob.vcf'') [],
                   Elem ''{DAV:}propstat'' None
                    [Elem ''{DAV:}prop'' None
                      [Elem ''{urn:ietf:params:xml:ns:carddav}address-data'' (Some ''FN:Bob'') []]]],
                 Elem ''{DAV:}response'' None
                  [Elem ''{DAV:}href'' (Some ''/ab/alice.vcf'') [],
                   Elem ''{DAV:}propstat'' None
                    [Elem ''{DAV:}prop'' None
                      [Elem ''{urn:ietf:params:xml:ns:carddav}address-data'' (Some ''FN:alice'') []]]]]),
              json_body = Inl (Exc JSONDecodeError []), status_msg = []\<rparr>"
  let ?e = "Inl (Exc RequestException []) :: outcome"
  let ?cb = "(parse_vcard ''FN:Bob'')(''href'' \<mapsto> ''bob.vcf'')"
  let ?ca = "(parse_vcard ''FN:alice'')(''href'' \<mapsto> ''alice.vcf'')"
  have rc: "report_contacts None (Inr ?r) = Inr [?cb, ?ca]"
    by (simp add: report_eval)
  have ka: "fn_key ?ca = ''alice''" and kb: "fn_key ?cb = ''bob''"
    by (simp_all add: match_eval)
  have h1: "sorted_contacts None (Inr ?r) ?e = Some [?ca, ?cb]"
    by (simp add: sorted_contacts_def rc ka kb)
  have h2: "(0 :: int) < 1" by simp
  have s1: "py_slice [?ca, ?cb] 0 1 = [?ca]" and s2: "py_slice [?ca, ?cb] 1 2 = [?cb]"
    by (simp_all add: py_slice_def slice_index_def)
  from contacts_pagination [OF h1 h2, of 1 "[]"] contacts_pagination [OF h1 h2, of 2 "[]"]
  have "list_contacts_raw 1 1 None (Inr ?r) ?e = (Some \<lparr>contacts = [?ca], total = 2\<rparr>, None)"
    and "list_contacts_raw 2 1 None (Inr ?r) ?e = (Some \<lparr>contacts = [?cb], total = 2\<rparr>, None)"
    and "total_pages 2 1 = 2"
    and "concat (map (\<lambda>q. py_slice [?ca, ?cb] ((q - 1) * 1) ((q - 1) * 1 + 1))
           [1..total_pages 2 1]) = [?ca, ?cb]"
    using s1 s2 by simp_all
  with h1 h2 show ?thesis by (simp add: Let_def)
qed

text \<open>
  C2.  An address book with one contact, Alice, searched for \<open>zzz\<close> with the limit 30: no
  contact matches, the raw listing gives an empty page and the total 0, and the text of
  \<open>list_contacts\<close> reads \<open>Page 1/0, 0 total\<close>: its page count is 0, not 1.  The widget
  \<open>nc_list_contacts_widget\<close> computes the page count 1 for the same total.
\<close>

theorem no_match_page_count:
  "let r = \<lparr>status_code = 207, body_text = [],
              content_xml = Inr (Elem ''{DAV:}multistatus'' None
                [Elem ''{DAV:}response'' None
                  [Elem ''{DAV:}href'' (Some ''/ab/alice.vcf'') [],
                   Elem ''{DAV:}propstat'' None
                    [Elem ''{DAV:}prop'' None
                      [Elem ''{urn:ietf:params:xml:ns:carddav}address-data'' (Some ''FN:Alice'') []]]]]),
              json_body = Inl (Exc JSONDecodeError []), status_msg = []\<rparr>;
       e = Inl (Exc RequestException [])
   in list_contacts_raw 1 30 (Some ''zzz'') (Inr r) e = (Some \<lparr>contacts = [], total = 0\<rparr>, None)
      \<and> list_contacts ''Contacts'' 1 30 (Some ''zzz'') (Inr r) e
          = Inr (''Contacts in Contacts (Page 1/0, 0 total):'' @ [CHR 0x0A])
      \<and> total_pages 0 30 = 0
      \<and> widget_total_pages 0 = 1"
proof -
  let ?r = "\<lparr>status_code = 207, body_text = [],
              content_xml = Inr (Elem ''{DAV:}multistatus'' None
                [Elem ''{DAV:}response'' None
                  [Elem ''{DAV:}href'' (Some ''/ab/alice.vcf'') [],
                   Elem ''{DAV:}propstat'' None
                    [Elem ''{DAV:}prop'' None
                      [Elem ''{urn:ietf:params:xml:ns:carddav}address-data'' (Some ''FN:Alice'') []]]]]),
              json_body = Inl (Exc JSONDecodeError []), status_msg = []\<rparr>"
  let ?e = "Inl (Exc RequestException []) :: outcome"
  have m: "\<not> term_matches ''zzz'' ((parse_vcard ''FN:Alice'')(''href'' \<mapsto> ''alice.vcf''))"
    by (simp add: match_eval)
  have rc: "report_contacts (Some ''zzz'') (Inr ?r) = Inr []"
    using m by (simp add: report_eval)
  have raw: "list_contacts_raw 1 30 (Some ''zzz'') (Inr ?r) ?e
             = (Some \<lparr>contacts = [], total = 0\<rparr>, None)"
    by (simp add: list_contacts_raw_def try_report_def rc paginate_def py_slice_def)
  have tp: "total_pages 0 30 = 0" by (simp add: total_pages_def)
  have "list_contacts ''Contacts'' 1 30 (Some ''zzz'') (Inr ?r) ?e
          = Inr (''Contacts in Contacts (Page 1/0, 0 total):'' @ [CHR 0x0A])"
    unfolding list_contacts_def raw by (simp add: contacts_text_def tp str_int_def)
  with raw tp show ?thesis by (simp add: Let_def widget_total_pages_def)
qed

end
